theory Spec2Isabelle
  imports Main "HOL-Library.Word"
begin

section \<open>The bridging protocol (package protocol, as used by the agent)\<close>

text \<open>
  The agent of \<^verbatim>\<open>cmd/agent/main.go\<close> reads one envelope per session and
  answers it. The packets are structs; an envelope is a type tag and a payload held in an
  interface value, which the handler converts with a type assertion.

  Modelled from the spec: the declarations of package protocol are not among the source
  files. Each packet has the fields that \<^verbatim>\<open>main.go\<close> reads and writes, with the
  types of the specification's table of envelope types: "{address:string, port:u16,
  transport:{tcp,udp}, family:{v4,v6}}", "{established:bool, reset:bool}",
  "{listener_id:i32, err:bool, err_string:string}", "{sock_id:i32, err:bool,
  err_string:string}", "{err:bool, err_string:string}". Where two packets have a field of
  the same name, the name carries a prefix here.
\<close>

type_synonym error = string
type_synonym int32 = "32 word"
type_synonym Conn = nat
type_synonym NetListener = nat
type_synonym Errno = nat

datatype transport = TransportTCP | TransportUDP
datatype network = Networkv4 | Networkv6

record ConnectRequestPacket =
  Net :: network
  Transport :: transport
  Address :: string
  Port :: "16 word"

record ConnectResponsePacket =
  Established :: bool
  Reset :: bool

record HostPingRequestPacket =
  Ping_Address :: string

record HostPingResponsePacket =
  Alive :: bool

record NetInterface =
  If_Name :: string
  If_Addresses :: "string list"
  If_HardwareAddr :: string
  If_MTU :: int

record InfoReplyPacket =
  Name :: string
  Interfaces :: "NetInterface list"

record ListenerRequestPacket =
  Listen_Network :: string
  Listen_Address :: string

record ListenerResponsePacket =
  ListenerID :: int32
  Lis_Err :: bool
  Lis_ErrString :: string

record ListenerBindReponse =
  SockID :: int32
  Bind_Err :: bool
  Bind_ErrString :: string

record ListenerSockRequestPacket =
  Req_SockID :: int32

record ListenerSockResponsePacket =
  Sock_Err :: bool
  Sock_ErrString :: string

record ListenerCloseRequestPacket =
  Req_ListenerID :: int32

record ListenerCloseResponsePacket =
  Close_Err :: bool
  Close_ErrString :: string

datatype message_type =
    MessageConnectRequest
  | MessageConnectResponse
  | MessageHostPingRequest
  | MessageHostPingResponse
  | MessageInfoRequest
  | MessageInfoReply
  | MessageListenerRequest
  | MessageListenerResponse
  | MessageListenerBindResponse
  | MessageListenerSockRequest
  | MessageListenerSockResponse
  | MessageListenerCloseRequest
  | MessageListenerCloseResponse
  | MessageClose

datatype payload =
    PConnectRequest ConnectRequestPacket
  | PConnectResponse ConnectResponsePacket
  | PHostPingRequest HostPingRequestPacket
  | PHostPingResponse HostPingResponsePacket
  | PInfoRequest
  | PInfoReply InfoReplyPacket
  | PListenerRequest ListenerRequestPacket
  | PListenerResponse ListenerResponsePacket
  | PListenerBindResponse ListenerBindReponse
  | PListenerSockRequest ListenerSockRequestPacket
  | PListenerSockResponse ListenerSockResponsePacket
  | PListenerCloseRequest ListenerCloseRequestPacket
  | PListenerCloseResponse ListenerCloseResponsePacket
  | PClose

record Envelope =
  Type :: message_type
  Payload :: payload

section \<open>The agent's world\<close>

text \<open>
  What the handler gets from outside (the decoder, the dialer, the operating system, the
  encoder, and the functions \<^verbatim>\<open>neterror.HostResponded\<close>,
  \<^verbatim>\<open>smartping.TryResolve\<close> and \<^verbatim>\<open>protocol.NewNetInterfaces\<close>, which are not
  among the source files) is read from a record of results, one field per call.
  A dial error carries the \<^verbatim>\<open>syscall.Errno\<close> that \<^verbatim>\<open>errors.As\<close> finds
  in its chain, if there is one.
\<close>

record dial_error =
  dial_msg :: error
  dial_errno :: "Errno option"

record User =
  Username :: string

record net_Interface =
  Index :: int
  MTU :: int
  Ifname :: string
  HardwareAddr :: string

datatype accept_result = Accepted Conn | AcceptFailed error

record env =
  Decode :: "error + Envelope"
  DialContext :: "string \<Rightarrow> string \<Rightarrow> dial_error + Conn"
  HostResponded :: "Errno \<Rightarrow> bool"
  Encode_result :: "Envelope \<Rightarrow> error option"
  TryResolve :: "string \<Rightarrow> bool"
  os_Hostname :: "error + string"
  user_Current :: "error + User"
  net_Interfaces :: "error + net_Interface list"
  NewNetInterfaces :: "net_Interface list \<Rightarrow> NetInterface list"
  net_Listen :: "string \<Rightarrow> string \<Rightarrow> error + NetListener"
  Listener_Close :: "NetListener \<Rightarrow> error option"

text \<open>
  A served listener has two goroutines: \<^verbatim>\<open>ListenAndServe\<close>, which accepts sockets
  and sends their ids, and the handler of the session that asked for the listener, which
  receives the ids and streams the bind responses. \<^verbatim>\<open>ListenAndServe\<close> is in
  \<^verbatim>\<open>Accept\<close>, or it has incremented the counter and waits to send the value it
  read (with the accepted socket in hand), or it has sent and is about to store the
  socket, or it has returned an error, which waits to be sent on the stop channel. The
  handler is in its \<^verbatim>\<open>select\<close>, or it has received an id and is about to encode the
  bind response.
\<close>

datatype sender_phase =
    Accepting
  | Sending int32 Conn
  | Storing Conn
  | Stopping error

datatype receiver_phase =
    Selecting
  | Binding int32

record serve =
  handler_conn :: Conn
  sender :: sender_phase
  receiver :: receiver_phase

text \<open>
  The four package-level variables of the agent, and where the goroutines of each served
  listener stand.
\<close>

record agent_state =
  listenerConntrack :: "int32 \<rightharpoonup> Conn"
  listenerMap :: "int32 \<rightharpoonup> NetListener"
  connTrackID :: int32
  listenerID :: int32
  serving :: "NetListener \<rightharpoonup> serve"

text \<open>
  What a handler does to the outside, in order: the dial (network, address, timeout in
  seconds), every envelope handed to the encoder of a session, the relay it starts, the
  listener it opens or closes, and what it logs at error level.
\<close>

datatype action =
    Dial string string nat
  | Encode Conn Envelope
  | StartRelay Conn Conn
  | Listen string string
  | CloseListener NetListener
  | LogError error
  | LogFatal error

text \<open>
  How a step of a goroutine ends: the handler returns, it panics (nothing in the agent
  recovers), it leaves the process (\<^verbatim>\<open>os.Exit\<close>, or \<^verbatim>\<open>logrus.Fatal\<close>, which
  exits with status 1), or the goroutine is still there (a handler in the loop of a
  served listener, a \<^verbatim>\<open>ListenAndServe\<close> loop).
\<close>

datatype outcome = Returned | Panicked error | Exited nat | Blocked

type_synonym result = "outcome \<times> action list \<times> agent_state"

section \<open>Formatting\<close>

text \<open>\<^verbatim>\<open>%d\<close> of \<^verbatim>\<open>fmt.Sprintf\<close> on an unsigned value.\<close>

fun fmt_d :: "nat \<Rightarrow> string" where
  "fmt_d n = (if n < 10 then [''0123456789'' ! n]
              else fmt_d (n div 10) @ [''0123456789'' ! (n mod 10)])"

declare fmt_d.simps [simp del]

section \<open>Addresses of the dialer\<close>

text \<open>
  The dialer of the Go library takes its target as one string and splits it with
  \<^verbatim>\<open>net.SplitHostPort\<close>: the port starts after the last colon, and a host that holds
  a colon must stand in square brackets. \<^verbatim>\<open>net.JoinHostPort\<close> builds such a string.
  The result is the host and the port, or the reason of the library's address error (the
  bracket of the three reasons that name one is written here without quotation marks).
\<close>

definition IndexByte :: "string \<Rightarrow> char \<Rightarrow> nat option" where
  "IndexByte s c =
     (if c \<in> set s then Some (length (takeWhile (\<lambda>x. x \<noteq> c) s)) else None)"

definition LastIndexByte :: "string \<Rightarrow> char \<Rightarrow> nat option" where
  "LastIndexByte s c =
     (if c \<in> set s then Some (length s - Suc (length (takeWhile (\<lambda>x. x \<noteq> c) (rev s))))
      else None)"

definition SplitHostPort :: "string \<Rightarrow> error + string \<times> string" where
  "SplitHostPort hostport =
     (case LastIndexByte hostport CHR '':'' of
        None \<Rightarrow> Inl ''missing port in address''
      | Some i \<Rightarrow>
          (case (if hostport ! 0 = CHR ''[''
                 then (case IndexByte hostport CHR '']'' of
                         None \<Rightarrow> Inl ''missing ] in address''
                       | Some close \<Rightarrow>
                           if close + 1 = length hostport then Inl ''missing port in address''
                           else if close + 1 = i
                             then Inr (take (close - 1) (drop 1 hostport), 1, close + 1)
                           else if hostport ! (close + 1) = CHR '':''
                             then Inl ''too many colons in address''
                           else Inl ''missing port in address'')
                 else if CHR '':'' \<in> set (take i hostport)
                   then Inl ''too many colons in address''
                 else Inr (take i hostport, 0, 0)) of
             Inl err \<Rightarrow> Inl err
           | Inr (host, j, k) \<Rightarrow>
               if CHR ''['' \<in> set (drop j hostport) then Inl ''unexpected [ in address''
               else if CHR '']'' \<in> set (drop k hostport) then Inl ''unexpected ] in address''
               else Inr (host, drop (i + 1) hostport)))"

definition JoinHostPort :: "string \<Rightarrow> string \<Rightarrow> string" where
  "JoinHostPort host port =
     (if CHR '':'' \<in> set host then ''['' @ host @ '']:'' @ port
      else host @ '':'' @ port)"

section \<open>The handler of one session: \<^verbatim>\<open>handleConn\<close>\<close>

text \<open>
  \<^verbatim>\<open>encoder.Encode\<close> followed by the handling of its error: \<^verbatim>\<open>logrus.Fatal\<close> in
  the connect, ping, info and sock cases, \<^verbatim>\<open>logrus.Error\<close> in the listener cases.
\<close>

definition encodeOrFatal :: "env \<Rightarrow> Conn \<Rightarrow> Envelope \<Rightarrow> outcome \<times> action list" where
  "encodeOrFatal ev conn e =
     (case Encode_result ev e of
        Some err \<Rightarrow> (Exited 1, [Encode conn e, LogFatal err])
      | None \<Rightarrow> (Returned, [Encode conn e]))"

definition encodeOrLog :: "env \<Rightarrow> Conn \<Rightarrow> Envelope \<Rightarrow> action list" where
  "encodeOrLog ev conn e =
     (case Encode_result ev e of
        Some err \<Rightarrow> [Encode conn e, LogError err]
      | None \<Rightarrow> [Encode conn e])"

subsection \<open>ConnectRequest\<close>

definition dialNetwork :: "ConnectRequestPacket \<Rightarrow> string" where
  "dialNetwork rq =
     (if Transport rq = TransportTCP then ''tcp'' else ''udp'') @
     (if Net rq = Networkv4 then ''4'' else ''6'')"

definition dialAddress :: "ConnectRequestPacket \<Rightarrow> string" where
  "dialAddress rq = Address rq @ '':'' @ fmt_d (unat (Port rq))"

text \<open>
  The packet starts as the zero value. On a dial error, Reset is set when the error holds
  an errno for which \<^verbatim>\<open>neterror.HostResponded\<close> is true, and Established is set to
  false; without an error Established is set to true.
\<close>

definition connectPacket :: "(Errno \<Rightarrow> bool) \<Rightarrow> dial_error + Conn \<Rightarrow> ConnectResponsePacket" where
  "connectPacket hostResponded r =
     (let p0 = \<lparr>Established = False, Reset = False\<rparr> in
      case r of
        Inl err \<Rightarrow>
          (let p1 = (case dial_errno err of
                       Some serr \<Rightarrow> if hostResponded serr then p0\<lparr>Reset := True\<rparr> else p0
                     | None \<Rightarrow> p0)
           in p1\<lparr>Established := False\<rparr>)
      | Inr targetConn \<Rightarrow> p0\<lparr>Established := True\<rparr>)"

definition handleConnectRequest :: "env \<Rightarrow> Conn \<Rightarrow> ConnectRequestPacket \<Rightarrow> agent_state \<Rightarrow> result" where
  "handleConnectRequest ev conn connRequest s =
     (let network = dialNetwork connRequest;
          address = dialAddress connRequest;
          r = DialContext ev network address;
          pkt = connectPacket (HostResponded ev) r;
          e = \<lparr>Type = MessageConnectResponse, Payload = PConnectResponse pkt\<rparr>;
          (out, sent) = encodeOrFatal ev conn e
      in if out \<noteq> Returned then (out, Dial network address 5 # sent, s)
         else if Established pkt then
           (case r of
              Inr targetConn \<Rightarrow> (Returned, Dial network address 5 # sent @ [StartRelay targetConn conn], s)
            | Inl err \<Rightarrow> (Returned, Dial network address 5 # sent, s))
         else (Returned, Dial network address 5 # sent, s))"

subsection \<open>HostPingRequest\<close>

definition handleHostPingRequest :: "env \<Rightarrow> Conn \<Rightarrow> HostPingRequestPacket \<Rightarrow> agent_state \<Rightarrow> result" where
  "handleHostPingRequest ev conn pingRequest s =
     (let pingResponse = \<lparr>Alive = TryResolve ev (Ping_Address pingRequest)\<rparr>;
          (out, sent) = encodeOrFatal ev conn
             \<lparr>Type = MessageHostPingResponse, Payload = PHostPingResponse pingResponse\<rparr>
      in (out, sent, s))"

subsection \<open>InfoRequest\<close>

text \<open>
  The error of \<^verbatim>\<open>user.Current()\<close> is discarded; the test that follows reads the
  variable \<^verbatim>\<open>err\<close> of \<^verbatim>\<open>os.Hostname()\<close>. When that one is nil the handler reads
  \<^verbatim>\<open>userinfo.Username\<close>, and \<^verbatim>\<open>userinfo\<close> is nil when the lookup of the user
  failed.
\<close>

definition nil_dereference :: error where
  "nil_dereference = ''runtime error: invalid memory address or nil pointer dereference''"

definition handleInfoRequest :: "env \<Rightarrow> Conn \<Rightarrow> agent_state \<Rightarrow> result" where
  "handleInfoRequest ev conn s =
     (let err = (case os_Hostname ev of Inl e \<Rightarrow> Some e | Inr h \<Rightarrow> None);
          hostname = (case os_Hostname ev of Inl e \<Rightarrow> ''UNKNOWN'' | Inr h \<Rightarrow> h);
          userinfo = user_Current ev;
          username = (if err \<noteq> None then Inr ''Unknown''
                      else case userinfo of
                             Inl e \<Rightarrow> Inl nil_dereference
                           | Inr u \<Rightarrow> Inr (Username u))
      in case username of
           Inl p \<Rightarrow> (Panicked p, [], s)
         | Inr username \<Rightarrow>
             (case net_Interfaces ev of
                Inl e \<Rightarrow> (Returned, [LogError ''could not get network interfaces''], s)
              | Inr netifaces \<Rightarrow>
                  (let infoResponse = \<lparr>Name = username @ ''@'' @ hostname,
                                       Interfaces = NewNetInterfaces ev netifaces\<rparr>;
                       (out, sent) = encodeOrFatal ev conn
                          \<lparr>Type = MessageInfoReply, Payload = PInfoReply infoResponse\<rparr>
                   in (out, sent, s))))"

subsection \<open>ListenerCloseRequest\<close>

definition handleListenerCloseRequest ::
    "env \<Rightarrow> Conn \<Rightarrow> ListenerCloseRequestPacket \<Rightarrow> agent_state \<Rightarrow> result" where
  "handleListenerCloseRequest ev conn closeRequest s =
     (let (err, closed) =
            (case listenerMap s (Req_ListenerID closeRequest) of
               Some lis \<Rightarrow> (Listener_Close ev lis, [CloseListener lis])
             | None \<Rightarrow> (Some ''invalid listener id'', []));
          r0 = \<lparr>Close_Err = (err \<noteq> None), Close_ErrString = ''''\<rparr>;
          listenerResponse = (case err of Some e \<Rightarrow> r0\<lparr>Close_ErrString := e\<rparr> | None \<Rightarrow> r0)
      in (Returned,
          closed @ encodeOrLog ev conn
            \<lparr>Type = MessageListenerCloseResponse, Payload = PListenerCloseResponse listenerResponse\<rparr>,
          s))"

subsection \<open>ListenerRequest\<close>

text \<open>
  \<^verbatim>\<open>ListenAndServe\<close>, one statement at a time. When \<^verbatim>\<open>Accept\<close> returns a
  socket, the global counter is incremented and the operand of the send is read from it;
  an error makes \<^verbatim>\<open>ListenAndServe\<close> return, and the goroutine that called it goes
  to send the error on the stop channel. A step that the goroutine is not ready for
  changes nothing.
\<close>

definition ListenAndServe_Accept :: "NetListener \<Rightarrow> accept_result \<Rightarrow> agent_state \<Rightarrow> agent_state" where
  "ListenAndServe_Accept lis r s =
     (case serving s lis of
        None \<Rightarrow> s
      | Some g \<Rightarrow>
          (case sender g of
             Accepting \<Rightarrow>
               (case r of
                  AcceptFailed err \<Rightarrow> s\<lparr>serving := (serving s)(lis \<mapsto> g\<lparr>sender := Stopping err\<rparr>)\<rparr>
                | Accepted conn \<Rightarrow>
                    (let s1 = s\<lparr>connTrackID := connTrackID s + 1\<rparr>
                     in s1\<lparr>serving := (serving s1)
                             (lis \<mapsto> g\<lparr>sender := Sending (connTrackID s1) conn\<rparr>)\<rparr>))
           | _ \<Rightarrow> s))"

text \<open>
  The channel is unbuffered: the send \<^verbatim>\<open>connTrackChan <- connTrackID\<close> completes
  when the handler, in its \<^verbatim>\<open>select\<close>, receives the value.
\<close>

definition connTrackChan_handoff :: "NetListener \<Rightarrow> agent_state \<Rightarrow> agent_state" where
  "connTrackChan_handoff lis s =
     (case serving s lis of
        None \<Rightarrow> s
      | Some g \<Rightarrow>
          (case (sender g, receiver g) of
             (Sending v conn, Selecting) \<Rightarrow>
               s\<lparr>serving := (serving s)(lis \<mapsto> g\<lparr>sender := Storing conn, receiver := Binding v\<rparr>)\<rparr>
           | _ \<Rightarrow> s))"

text \<open>
  After the send, \<^verbatim>\<open>listenerConntrack[connTrackID] = conn\<close>: the key is the global
  counter as it is now, and nothing locks it.
\<close>

definition ListenAndServe_store :: "NetListener \<Rightarrow> agent_state \<Rightarrow> agent_state" where
  "ListenAndServe_store lis s =
     (case serving s lis of
        None \<Rightarrow> s
      | Some g \<Rightarrow>
          (case sender g of
             Storing conn \<Rightarrow>
               s\<lparr>listenerConntrack := (listenerConntrack s)(connTrackID s \<mapsto> conn),
                 serving := (serving s)(lis \<mapsto> g\<lparr>sender := Accepting\<rparr>)\<rparr>
           | _ \<Rightarrow> s))"

text \<open>
  The handler's side of the loop: with an id received, it encodes the bind response (an
  error of the encoder is logged) and goes back to the \<^verbatim>\<open>select\<close>.
\<close>

definition handler_bind :: "env \<Rightarrow> NetListener \<Rightarrow> agent_state \<Rightarrow> result" where
  "handler_bind ev lis s =
     (case serving s lis of
        None \<Rightarrow> (Blocked, [], s)
      | Some g \<Rightarrow>
          (case receiver g of
             Selecting \<Rightarrow> (Blocked, [], s)
           | Binding received \<Rightarrow>
               (let bindResponse = \<lparr>SockID = received, Bind_Err = False, Bind_ErrString = ''''\<rparr>
                in (Blocked,
                    encodeOrLog ev (handler_conn g)
                      \<lparr>Type = MessageListenerBindResponse,
                       Payload = PListenerBindResponse bindResponse\<rparr>,
                    s\<lparr>serving := (serving s)(lis \<mapsto> g\<lparr>receiver := Selecting\<rparr>)\<rparr>))))"

text \<open>
  The handler receives the error of \<^verbatim>\<open>ListenAndServe\<close> from the stop channel: it
  logs it, sends the last bind response, leaves the loop, and the deferred
  \<^verbatim>\<open>listener.Close()\<close> runs.
\<close>

definition handler_stop :: "env \<Rightarrow> NetListener \<Rightarrow> agent_state \<Rightarrow> result" where
  "handler_stop ev lis s =
     (case serving s lis of
        None \<Rightarrow> (Blocked, [], s)
      | Some g \<Rightarrow>
          (case (sender g, receiver g) of
             (Stopping err, Selecting) \<Rightarrow>
               (let bindResponse = \<lparr>SockID = 0, Bind_Err = True, Bind_ErrString = err\<rparr>
                in (Returned,
                    LogError err #
                    encodeOrLog ev (handler_conn g)
                      \<lparr>Type = MessageListenerBindResponse,
                       Payload = PListenerBindResponse bindResponse\<rparr> @
                    [CloseListener lis],
                    s\<lparr>serving := (serving s)(lis := None)\<rparr>))
           | _ \<Rightarrow> (Blocked, [], s)))"

text \<open>
  The handler up to its loop: it opens the listener, registers it under the next listener
  id, replies, starts \<^verbatim>\<open>ListenAndServe\<close> and waits in the \<^verbatim>\<open>select\<close>.
\<close>

definition handleListenerRequest ::
    "env \<Rightarrow> Conn \<Rightarrow> ListenerRequestPacket \<Rightarrow> agent_state \<Rightarrow> result" where
  "handleListenerRequest ev conn listenRequest s =
     (case net_Listen ev (Listen_Network listenRequest) (Listen_Address listenRequest) of
        Inl err \<Rightarrow>
          (let listenerResponse = \<lparr>ListenerID = 0, Lis_Err = True, Lis_ErrString = err\<rparr>
           in (Returned,
               Listen (Listen_Network listenRequest) (Listen_Address listenRequest) #
               encodeOrLog ev conn
                 \<lparr>Type = MessageListenerResponse, Payload = PListenerResponse listenerResponse\<rparr>,
               s))
      | Inr lis \<Rightarrow>
          (let listenerResponse = \<lparr>ListenerID = listenerID s, Lis_Err = False, Lis_ErrString = ''''\<rparr>;
               s1 = s\<lparr>listenerMap := (listenerMap s)(listenerID s \<mapsto> lis)\<rparr>;
               s2 = s1\<lparr>listenerID := listenerID s1 + 1\<rparr>;
               sent = encodeOrLog ev conn
                 \<lparr>Type = MessageListenerResponse, Payload = PListenerResponse listenerResponse\<rparr>;
               s3 = s2\<lparr>serving := (serving s2)
                        (lis \<mapsto> \<lparr>handler_conn = conn, sender = Accepting, receiver = Selecting\<rparr>)\<rparr>
           in (Blocked,
               Listen (Listen_Network listenRequest) (Listen_Address listenRequest) # sent,
               s3)))"

subsection \<open>ListenerSockRequest\<close>

definition handleListenerSockRequest ::
    "env \<Rightarrow> Conn \<Rightarrow> ListenerSockRequestPacket \<Rightarrow> agent_state \<Rightarrow> result" where
  "handleListenerSockRequest ev conn sockRequest s =
     (let r0 = \<lparr>Sock_Err = False, Sock_ErrString = ''''\<rparr>;
          sockResponse =
            (case listenerConntrack s (Req_SockID sockRequest) of
               None \<Rightarrow> r0\<lparr>Sock_ErrString := ''invalid or unexistant SockID'', Sock_Err := True\<rparr>
             | Some c \<Rightarrow> r0);
          (out, sent) = encodeOrFatal ev conn
             \<lparr>Type = MessageListenerSockResponse, Payload = PListenerSockResponse sockResponse\<rparr>
      in if out \<noteq> Returned then (out, sent, s)
         else if Sock_Err sockResponse then (Returned, sent, s)
         else (case listenerConntrack s (Req_SockID sockRequest) of
                 Some netConn \<Rightarrow> (Returned, sent @ [StartRelay netConn conn], s)
               | None \<Rightarrow> (Returned, sent, s)))"

subsection \<open>The dispatch\<close>

text \<open>
  A failed decode panics with the error. A type assertion on a payload of another type
  panics too. A message type with no case in the switch falls through and the handler
  returns.
\<close>

definition interface_conversion :: error where
  "interface_conversion = ''interface conversion: interface {} is not the asserted type''"

definition handleConn :: "env \<Rightarrow> Conn \<Rightarrow> agent_state \<Rightarrow> result" where
  "handleConn ev conn s =
     (case Decode ev of
        Inl err \<Rightarrow> (Panicked err, [], s)
      | Inr e \<Rightarrow>
          (case Type e of
             MessageConnectRequest \<Rightarrow>
               (case Payload e of
                  PConnectRequest connRequest \<Rightarrow> handleConnectRequest ev conn connRequest s
                | _ \<Rightarrow> (Panicked interface_conversion, [], s))
           | MessageHostPingRequest \<Rightarrow>
               (case Payload e of
                  PHostPingRequest pingRequest \<Rightarrow> handleHostPingRequest ev conn pingRequest s
                | _ \<Rightarrow> (Panicked interface_conversion, [], s))
           | MessageInfoRequest \<Rightarrow> handleInfoRequest ev conn s
           | MessageListenerCloseRequest \<Rightarrow>
               (case Payload e of
                  PListenerCloseRequest closeRequest \<Rightarrow> handleListenerCloseRequest ev conn closeRequest s
                | _ \<Rightarrow> (Panicked interface_conversion, [], s))
           | MessageListenerRequest \<Rightarrow>
               (case Payload e of
                  PListenerRequest listenRequest \<Rightarrow> handleListenerRequest ev conn listenRequest s
                | _ \<Rightarrow> (Panicked interface_conversion, [], s))
           | MessageListenerSockRequest \<Rightarrow>
               (case Payload e of
                  PListenerSockRequest sockRequest \<Rightarrow> handleListenerSockRequest ev conn sockRequest s
                | _ \<Rightarrow> (Panicked interface_conversion, [], s))
           | MessageClose \<Rightarrow> (Exited 0, [], s)
           | _ \<Rightarrow> (Returned, [], s)))"


section \<open>The agent process: \<^verbatim>\<open>main\<close>\<close>

text \<open>
  \<^verbatim>\<open>main\<close> makes the two maps (the counters are zero) and starts one goroutine per
  accepted session. A run of the agent is a sequence of steps of its goroutines, in the
  order in which the scheduler takes them: a new session served by its handler, and for a
  served listener the return of \<^verbatim>\<open>Accept\<close>, the hand-off of an id over the channel,
  the store of the accepted socket, the bind response of the handler, and the end of the
  loop on an error. No goroutine recovers, so a panic in any handler ends the whole
  process, as \<^verbatim>\<open>os.Exit\<close> does.
\<close>

definition agent_init :: agent_state where
  "agent_init = \<lparr>listenerConntrack = Map.empty, listenerMap = Map.empty,
                 connTrackID = 0, listenerID = 0, serving = Map.empty\<rparr>"

datatype task =
    Session env Conn
  | Accept NetListener accept_result
  | HandOff NetListener
  | Store NetListener
  | Bind env NetListener
  | Stop env NetListener

datatype process = Running | Crashed error | ExitStatus nat

fun runTask :: "task \<Rightarrow> agent_state \<Rightarrow> result" where
  "runTask (Session ev conn) s = handleConn ev conn s"
| "runTask (Accept lis r) s = (Blocked, [], ListenAndServe_Accept lis r s)"
| "runTask (HandOff lis) s = (Blocked, [], connTrackChan_handoff lis s)"
| "runTask (Store lis) s = (Blocked, [], ListenAndServe_store lis s)"
| "runTask (Bind ev lis) s = handler_bind ev lis s"
| "runTask (Stop ev lis) s = handler_stop ev lis s"

fun main_loop :: "task list \<Rightarrow> agent_state \<Rightarrow> process \<times> action list \<times> agent_state" where
  "main_loop [] s = (Running, [], s)"
| "main_loop (t # ts) s =
     (case runTask t s of
        (Panicked err, acts, s1) \<Rightarrow> (Crashed err, acts, s1)
      | (Exited n, acts, s1) \<Rightarrow> (ExitStatus n, acts, s1)
      | (out, acts, s1) \<Rightarrow>
          (case main_loop ts s1 of (p, acts', s2) \<Rightarrow> (p, acts @ acts', s2)))"

section \<open>The userland stack host (package netstack)\<close>

subsection \<open>Tun-connections\<close>

type_synonym TransportProtocolNumber = nat
type_synonym NetworkProtocolNumber = nat
type_synonym NICID = nat
type_synonym PacketBuffer = nat
type_synonym LinkEndpoint = nat

text \<open>The protocol numbers of the stack library (IANA numbers and EtherTypes).\<close>

definition tcp_ProtocolNumber :: TransportProtocolNumber where
  "tcp_ProtocolNumber = 6"

definition udp_ProtocolNumber :: TransportProtocolNumber where
  "udp_ProtocolNumber = 17"

definition icmp_ProtocolNumber4 :: TransportProtocolNumber where
  "icmp_ProtocolNumber4 = 1"

definition icmp_ProtocolNumber6 :: TransportProtocolNumber where
  "icmp_ProtocolNumber6 = 58"

definition ipv4_ProtocolNumber :: NetworkProtocolNumber where
  "ipv4_ProtocolNumber = 2048"

definition ipv6_ProtocolNumber :: NetworkProtocolNumber where
  "ipv6_ProtocolNumber = 34525"

record TransportEndpointID =
  LocalPort :: "16 word"
  LocalAddress :: "8 word list"
  RemotePort :: "16 word"
  RemoteAddress :: "8 word list"

text \<open>A forwarder request of the stack: the object itself and what \<^verbatim>\<open>ID()\<close> returns.\<close>

record ForwarderRequest =
  request_ref :: nat
  ID :: TransportEndpointID

record TCPConn =
  TCP_EndpointID :: TransportEndpointID
  TCP_Request :: ForwarderRequest

record UDPConn =
  UDP_EndpointID :: TransportEndpointID
  UDP_Request :: ForwarderRequest

record ICMPConn =
  ICMP_Request :: PacketBuffer

text \<open>The dynamic type of the \<^verbatim>\<open>Handler interface{}\<close> field.\<close>

datatype handler = HTCPConn TCPConn | HUDPConn UDPConn | HICMPConn ICMPConn

record TunConn =
  Protocol :: TransportProtocolNumber
  Handler :: handler

text \<open>
  What the package does to the stack's objects and to the log. The package itself only
  ever completes a TCP request and logs; the release of a packet buffer
  (\<^verbatim>\<open>DecRef\<close>) is there to state what the specification expects of
  \<^verbatim>\<open>Terminate\<close>.
\<close>

datatype netstack_action =
    Complete ForwarderRequest bool
  | DecRef PacketBuffer
  | LogErr error

definition IsTCP :: "TunConn \<Rightarrow> bool" where
  "IsTCP t = (Protocol t = tcp_ProtocolNumber)"

definition GetTCP :: "TunConn \<Rightarrow> error + TCPConn" where
  "GetTCP t = (case Handler t of HTCPConn c \<Rightarrow> Inr c | _ \<Rightarrow> Inl interface_conversion)"

definition IsUDP :: "TunConn \<Rightarrow> bool" where
  "IsUDP t = (Protocol t = udp_ProtocolNumber)"

definition GetUDP :: "TunConn \<Rightarrow> error + UDPConn" where
  "GetUDP t = (case Handler t of HUDPConn c \<Rightarrow> Inr c | _ \<Rightarrow> Inl interface_conversion)"

definition IsICMP :: "TunConn \<Rightarrow> bool" where
  "IsICMP t = (Protocol t = icmp_ProtocolNumber4)"

definition GetICMP :: "TunConn \<Rightarrow> error + ICMPConn" where
  "GetICMP t = (case Handler t of HICMPConn c \<Rightarrow> Inr c | _ \<Rightarrow> Inl interface_conversion)"

text \<open>\<^verbatim>\<open>Terminate\<close>: the actions it performs, or the panic of the type assertion.\<close>

definition Terminate :: "TunConn \<Rightarrow> bool \<Rightarrow> error + netstack_action list" where
  "Terminate t reset =
     (if IsTCP t then
        (case GetTCP t of
           Inl p \<Rightarrow> Inl p
         | Inr c \<Rightarrow> Inr [Complete (TCP_Request c) reset])
      else Inr [])"

text \<open>
  The same operation as the specification words it: "destroyed by Terminate (TCP
  reset/finish, UDP drop, ICMP buffer release)". A dropped datagram is one with which
  nothing is done.
\<close>

definition Terminate_spec :: "TunConn \<Rightarrow> bool \<Rightarrow> error + netstack_action list" where
  "Terminate_spec t reset =
     (case Handler t of
        HTCPConn c \<Rightarrow> Inr [Complete (TCP_Request c) reset]
      | HUDPConn c \<Rightarrow> Inr []
      | HICMPConn c \<Rightarrow> Inr [DecRef (ICMP_Request c)])"


subsection \<open>The connection pool\<close>

text \<open>
  The forwarder callbacks use two methods of the pool, \<^verbatim>\<open>Closed\<close> and \<^verbatim>\<open>Add\<close>. The
  callbacks take them as parameters: \<^verbatim>\<open>Add\<close> returns its error (if any) and the pool
  after the call.
\<close>

record 'p pool_ops =
  Closed :: "'p \<Rightarrow> bool"
  Add :: "'p \<Rightarrow> TunConn \<Rightarrow> error option \<times> 'p"

text \<open>
  Modelled from the spec: the type ConnPool and its methods \<^verbatim>\<open>Closed\<close> and \<^verbatim>\<open>Add\<close>
  are not among the source files. "Internally: an unbounded channel-like queue plus a closed
  flag. Closed() returns the flag. Add returns ClosedPool iff the flag is set, else
  enqueues and returns success."
\<close>

record ConnPool =
  closed :: bool
  queue :: "TunConn list"

definition ConnPool_Closed :: "ConnPool \<Rightarrow> bool" where
  "ConnPool_Closed p = closed p"

definition ConnPool_Add :: "ConnPool \<Rightarrow> TunConn \<Rightarrow> error option \<times> ConnPool" where
  "ConnPool_Add p tc =
     (if closed p then (Some ''ClosedPool'', p)
      else (None, p\<lparr>queue := queue p @ [tc]\<rparr>))"

definition ConnPool_ops :: "ConnPool pool_ops" where
  "ConnPool_ops = \<lparr>Closed = ConnPool_Closed, Add = ConnPool_Add\<rparr>"

subsection \<open>The stack library\<close>

text \<open>
  The userland stack is a library outside the repository. Its state is the configuration
  that \<^verbatim>\<open>NetStack.new\<close> writes: each setter stores its value; a setter that names a NIC
  or a protocol the stack does not have changes nothing (it returns an error, which
  \<^verbatim>\<open>new\<close> does not read). \<^verbatim>\<open>CreateNIC\<close> fails on an id already in use.
\<close>

record Subnet =
  subnet_address :: "8 word list"
  subnet_mask :: "8 word list"

definition IPv4EmptySubnet :: Subnet where
  "IPv4EmptySubnet = \<lparr>subnet_address = replicate 4 0, subnet_mask = replicate 4 0\<rparr>"

definition IPv6EmptySubnet :: Subnet where
  "IPv6EmptySubnet = \<lparr>subnet_address = replicate 16 0, subnet_mask = replicate 16 0\<rparr>"

record Route =
  Destination :: Subnet
  Gateway :: "8 word list"
  NIC :: NICID

datatype packet_handler =
    TCPForwarder nat nat
  | UDPForwarder
  | ICMPResponder

record nic =
  nic_linkEP :: LinkEndpoint
  nic_promiscuous :: bool
  nic_spoofing :: bool

record Options =
  NetworkProtocols :: "NetworkProtocolNumber list"
  TransportProtocols :: "TransportProtocolNumber list"
  HandleLocal :: bool

record Stack =
  networkProtocols :: "NetworkProtocolNumber list"
  transportProtocols :: "TransportProtocolNumber list"
  handleLocal :: bool
  icmpLimit :: nat
  icmpBurst :: int
  transportHandlers :: "TransportProtocolNumber \<rightharpoonup> packet_handler"
  nics :: "NICID \<rightharpoonup> nic"
  routeTable :: "Route list"
  forwarding :: "NetworkProtocolNumber \<rightharpoonup> bool"
  tcpSACKEnabled :: bool
  tcpAlwaysUseSynCookies :: bool

datatype tcp_option = TCPSACKEnabled bool | TCPAlwaysUseSynCookies bool

definition stack_New :: "Stack \<Rightarrow> Options \<Rightarrow> Stack" where
  "stack_New fresh opts =
     fresh\<lparr>networkProtocols := NetworkProtocols opts,
           transportProtocols := TransportProtocols opts,
           handleLocal := HandleLocal opts\<rparr>"

definition SetICMPLimit :: "nat \<Rightarrow> Stack \<Rightarrow> Stack" where
  "SetICMPLimit l st = st\<lparr>icmpLimit := l\<rparr>"

definition SetICMPBurst :: "int \<Rightarrow> Stack \<Rightarrow> Stack" where
  "SetICMPBurst b st = st\<lparr>icmpBurst := b\<rparr>"

definition SetTransportProtocolHandler ::
    "TransportProtocolNumber \<Rightarrow> packet_handler \<Rightarrow> Stack \<Rightarrow> Stack" where
  "SetTransportProtocolHandler p h st =
     (if p \<in> set (transportProtocols st)
      then st\<lparr>transportHandlers := (transportHandlers st)(p \<mapsto> h)\<rparr> else st)"

definition CreateNIC :: "NICID \<Rightarrow> LinkEndpoint \<Rightarrow> Stack \<Rightarrow> error + Stack" where
  "CreateNIC n ep st =
     (if n \<in> dom (nics st) then Inl ''duplicate nic id''
      else Inr (st\<lparr>nics := (nics st)(n \<mapsto>
              \<lparr>nic_linkEP = ep, nic_promiscuous = False, nic_spoofing = False\<rparr>)\<rparr>))"

definition SetRouteTable :: "Route list \<Rightarrow> Stack \<Rightarrow> Stack" where
  "SetRouteTable rt st = st\<lparr>routeTable := rt\<rparr>"

definition SetForwardingDefaultAndAllNICs :: "NetworkProtocolNumber \<Rightarrow> bool \<Rightarrow> Stack \<Rightarrow> Stack" where
  "SetForwardingDefaultAndAllNICs p b st =
     (if p \<in> set (networkProtocols st)
      then st\<lparr>forwarding := (forwarding st)(p \<mapsto> b)\<rparr> else st)"

definition SetTransportProtocolOption :: "TransportProtocolNumber \<Rightarrow> tcp_option \<Rightarrow> Stack \<Rightarrow> Stack" where
  "SetTransportProtocolOption p opt st =
     (if p \<in> set (transportProtocols st) \<and> p = tcp_ProtocolNumber then
        (case opt of
           TCPSACKEnabled b \<Rightarrow> st\<lparr>tcpSACKEnabled := b\<rparr>
         | TCPAlwaysUseSynCookies b \<Rightarrow> st\<lparr>tcpAlwaysUseSynCookies := b\<rparr>)
      else st)"

definition SetPromiscuousMode :: "NICID \<Rightarrow> bool \<Rightarrow> Stack \<Rightarrow> Stack" where
  "SetPromiscuousMode n b st =
     (case nics st n of
        None \<Rightarrow> st
      | Some c \<Rightarrow> st\<lparr>nics := (nics st)(n \<mapsto> c\<lparr>nic_promiscuous := b\<rparr>)\<rparr>)"

definition SetSpoofing :: "NICID \<Rightarrow> bool \<Rightarrow> Stack \<Rightarrow> Stack" where
  "SetSpoofing n b st =
     (case nics st n of
        None \<Rightarrow> st
      | Some c \<Rightarrow> st\<lparr>nics := (nics st)(n \<mapsto> c\<lparr>nic_spoofing := b\<rparr>)\<rparr>)"

subsection \<open>\<^verbatim>\<open>NetStack\<close> and its forwarder callbacks\<close>

record 'p NetStack =
  pool :: "'p option"
  stack :: "Stack option"

definition NewNetStack :: "'p option \<Rightarrow> 'p NetStack" where
  "NewNetStack connPool = \<lparr>pool = connPool, stack = None\<rparr>"

definition SetConnPool :: "'p option \<Rightarrow> 'p NetStack \<Rightarrow> 'p NetStack" where
  "SetConnPool connPool s = s\<lparr>pool := connPool\<rparr>"

text \<open>
  The callback given to \<^verbatim>\<open>tcp.NewForwarder\<close>, run under the lock of the NetStack: the
  actions it performs and the NetStack after it.
\<close>

definition tcpForwarder ::
    "'p pool_ops \<Rightarrow> ForwarderRequest \<Rightarrow> 'p NetStack \<Rightarrow> netstack_action list \<times> 'p NetStack" where
  "tcpForwarder ops request s =
     (let tcpConn = \<lparr>TCP_EndpointID = ID request, TCP_Request = request\<rparr> in
      case pool s of
        None \<Rightarrow> ([], s)
      | Some p \<Rightarrow>
          if Closed ops p then ([], s)
          else (case Add ops p \<lparr>Protocol = tcp_ProtocolNumber, Handler = HTCPConn tcpConn\<rparr> of
                  (Some err, p') \<Rightarrow> ([LogErr err], s\<lparr>pool := Some p'\<rparr>)
                | (None, p') \<Rightarrow> ([], s\<lparr>pool := Some p'\<rparr>)))"

text \<open>The callback given to \<^verbatim>\<open>udp.NewForwarder\<close>.\<close>

definition udpForwarder ::
    "'p pool_ops \<Rightarrow> ForwarderRequest \<Rightarrow> 'p NetStack \<Rightarrow> netstack_action list \<times> 'p NetStack" where
  "udpForwarder ops request s =
     (let udpConn = \<lparr>UDP_EndpointID = ID request, UDP_Request = request\<rparr> in
      case pool s of
        None \<Rightarrow> ([], s)
      | Some p \<Rightarrow>
          if Closed ops p then ([], s)
          else (case Add ops p \<lparr>Protocol = udp_ProtocolNumber, Handler = HUDPConn udpConn\<rparr> of
                  (Some err, p') \<Rightarrow> ([LogErr err], s\<lparr>pool := Some p'\<rparr>)
                | (None, p') \<Rightarrow> ([], s\<lparr>pool := Some p'\<rparr>)))"

subsection \<open>Stack construction: \<^verbatim>\<open>NetStack.new\<close>\<close>

text \<open>
  What construction reads from outside: the MTU and the descriptor of the TUN device, the
  link endpoint, the stack as \<^verbatim>\<open>stack.New\<close> leaves every setting that its options do
  not name, and whether the ICMP responder could be started.
\<close>

record stack_env =
  GetMTU :: "string \<Rightarrow> error + nat"
  tun_Open :: "string \<Rightarrow> error + int"
  fdbased_New :: "int list \<Rightarrow> nat \<Rightarrow> error + LinkEndpoint"
  fresh_stack :: Stack
  icmpResponder_error :: "error option"

text \<open>
  Modelled from the spec: \<^verbatim>\<open>icmpResponder\<close> is a function of this package that is not
  among the source files. "The stack's built-in responder is disabled; the host installs
  C5 as a raw packet handler for ICMPv4."
\<close>

definition icmpResponder :: "stack_env \<Rightarrow> Stack \<Rightarrow> error + Stack" where
  "icmpResponder env st =
     (case icmpResponder_error env of
        Some err \<Rightarrow> Inl err
      | None \<Rightarrow> Inr (st\<lparr>transportHandlers := (transportHandlers st)(icmp_ProtocolNumber4 \<mapsto> ICMPResponder)\<rparr>))"

datatype abort = Fatal error | Panic error

definition new :: "stack_env \<Rightarrow> string \<Rightarrow> 'p NetStack \<Rightarrow> abort + Stack \<times> 'p NetStack" where
  "new env tunName s =
     (case GetMTU env tunName of
        Inl err \<Rightarrow> Inl (Fatal err)
      | Inr mtu \<Rightarrow>
     (case tun_Open env tunName of
        Inl err \<Rightarrow> Inl (Fatal err)
      | Inr fd \<Rightarrow>
     (case fdbased_New env [fd] mtu of
        Inl err \<Rightarrow> Inl (Fatal err)
      | Inr linkEP \<Rightarrow>
     (let ns = stack_New (fresh_stack env)
                 \<lparr>NetworkProtocols = [ipv4_ProtocolNumber, ipv6_ProtocolNumber],
                  TransportProtocols = [tcp_ProtocolNumber, udp_ProtocolNumber,
                                        icmp_ProtocolNumber4, icmp_ProtocolNumber6],
                  HandleLocal = False\<rparr>;
          ns = SetICMPLimit 0 ns;
          ns = SetICMPBurst 0 ns;
          ns = SetTransportProtocolHandler tcp_ProtocolNumber (TCPForwarder 0 4096) ns;
          ns = SetTransportProtocolHandler udp_ProtocolNumber UDPForwarder ns
      in case CreateNIC 1 linkEP ns of
           Inl err \<Rightarrow> Inl (Panic err)
         | Inr ns \<Rightarrow>
      (case icmpResponder env ns of
           Inl err \<Rightarrow> Inl (Fatal err)
         | Inr ns \<Rightarrow>
      (let ns = SetRouteTable
                  [\<lparr>Destination = IPv4EmptySubnet, Gateway = [], NIC = 1\<rparr>,
                   \<lparr>Destination = IPv6EmptySubnet, Gateway = [], NIC = 1\<rparr>] ns;
           ns = SetForwardingDefaultAndAllNICs ipv4_ProtocolNumber False ns;
           ns = SetForwardingDefaultAndAllNICs ipv6_ProtocolNumber False ns;
           ns = SetTransportProtocolOption tcp_ProtocolNumber (TCPSACKEnabled False) ns;
           ns = SetTransportProtocolOption tcp_ProtocolNumber (TCPAlwaysUseSynCookies False) ns;
           ns = SetPromiscuousMode 1 True ns;
           ns = SetSpoofing 1 True ns
       in Inr (ns, s\<lparr>stack := Some ns\<rparr>)))))))"

section \<open>Properties of runs\<close>

text \<open>The bind response that announces an accepted socket.\<close>

definition bindOk :: "int32 \<Rightarrow> Envelope" where
  "bindOk sid = \<lparr>Type = MessageListenerBindResponse,
     Payload = PListenerBindResponse \<lparr>SockID = sid, Bind_Err = False, Bind_ErrString = ''''\<rparr>\<rparr>"

text \<open>No connect response among the actions says both established and reset.\<close>

definition sound_replies :: "action list \<Rightarrow> bool" where
  "sound_replies acts =
     (\<forall>c m pkt. Encode c m \<in> set acts \<longrightarrow> Payload m = PConnectResponse pkt \<longrightarrow>
        Established pkt \<longrightarrow> \<not> Reset pkt)"

section \<open>Example sessions\<close>

text \<open>
  A host named gateway, run by alice, where errno 111 (ECONNREFUSED) counts as an answer
  of the host, every envelope can be sent, and a listener can be opened.
\<close>

definition example_env :: env where
  "example_env =
     \<lparr>Decode = Inl ''unexpected EOF'',
      DialContext = (\<lambda>network address. Inl \<lparr>dial_msg = ''i/o timeout'', dial_errno = None\<rparr>),
      HostResponded = (\<lambda>serr. serr = 111),
      Encode_result = (\<lambda>e. None),
      TryResolve = (\<lambda>address. False),
      os_Hostname = Inr ''gateway'',
      user_Current = Inr \<lparr>Username = ''alice''\<rparr>,
      net_Interfaces = Inr [],
      NewNetInterfaces = map (\<lambda>i. \<lparr>If_Name = Ifname i, If_Addresses = [],
                                      If_HardwareAddr = HardwareAddr i, If_MTU = MTU i\<rparr>),
      net_Listen = (\<lambda>network address. Inr 7),
      Listener_Close = (\<lambda>lis. None)\<rparr>"

definition session_with :: "message_type \<Rightarrow> payload \<Rightarrow> env" where
  "session_with ty pl = example_env\<lparr>Decode := Inr \<lparr>Type = ty, Payload = pl\<rparr>\<rparr>"

definition connect_ok_env :: env where
  "connect_ok_env =
     (session_with MessageConnectRequest
        (PConnectRequest \<lparr>Net = Networkv4, Transport = TransportTCP,
                          Address = ''10.0.0.5'', Port = 80\<rparr>))
     \<lparr>DialContext := (\<lambda>network address.
         if network = ''tcp4'' \<and> address = ''10.0.0.5:80'' then Inr 42
         else Inl \<lparr>dial_msg = ''i/o timeout'', dial_errno = None\<rparr>)\<rparr>"

definition connect_refused_env :: env where
  "connect_refused_env =
     (session_with MessageConnectRequest
        (PConnectRequest \<lparr>Net = Networkv4, Transport = TransportTCP,
                          Address = ''10.0.0.5'', Port = 81\<rparr>))
     \<lparr>DialContext := (\<lambda>network address.
         Inl \<lparr>dial_msg = ''connect: connection refused'', dial_errno = Some 111\<rparr>)\<rparr>"

text \<open>
  A request for TCP port 8080 of the IPv6 loopback address, on a host where a server
  listens there: the dialer splits the address it is given as the Go library does, and
  connects when host and port are the server's.
\<close>

definition connect_v6_env :: env where
  "connect_v6_env =
     (session_with MessageConnectRequest
        (PConnectRequest \<lparr>Net = Networkv6, Transport = TransportTCP,
                          Address = ''::1'', Port = 8080\<rparr>))
     \<lparr>DialContext := (\<lambda>network address.
         case SplitHostPort address of
           Inl err \<Rightarrow> Inl \<lparr>dial_msg = err, dial_errno = None\<rparr>
         | Inr (host, port) \<Rightarrow>
             if network = ''tcp6'' \<and> host = ''::1'' \<and> port = ''8080'' then Inr 42
             else Inl \<lparr>dial_msg = ''i/o timeout'', dial_errno = None\<rparr>)\<rparr>"

definition info_env :: env where
  "info_env = session_with MessageInfoRequest PInfoRequest"

definition malformed_env :: env where
  "malformed_env = example_env"

section \<open>Example flows\<close>

definition example_request :: ForwarderRequest where
  "example_request =
     \<lparr>request_ref = 1,
      ID = \<lparr>LocalPort = 80, LocalAddress = [10, 0, 0, 5],
            RemotePort = 40000, RemoteAddress = [192, 168, 1, 2]\<rparr>\<rparr>"

definition example_pool :: ConnPool where
  "example_pool = \<lparr>closed = False, queue = []\<rparr>"

text \<open>
  A pool that another goroutine closes between the two calls of a callback:
  \<^verbatim>\<open>Closed\<close> has answered false, and \<^verbatim>\<open>Add\<close> finds the flag set.
\<close>

definition late_close_ops :: "ConnPool pool_ops" where
  "late_close_ops = \<lparr>Closed = (\<lambda>p. False), Add = ConnPool_Add\<rparr>"

definition icmp_TunConn :: TunConn where
  "icmp_TunConn = \<lparr>Protocol = icmp_ProtocolNumber4, Handler = HICMPConn \<lparr>ICMP_Request = 7\<rparr>\<rparr>"

definition udp_TunConn :: TunConn where
  "udp_TunConn = \<lparr>Protocol = udp_ProtocolNumber,
     Handler = HUDPConn \<lparr>UDP_EndpointID = ID example_request, UDP_Request = example_request\<rparr>\<rparr>"

definition tcp_TunConn :: TunConn where
  "tcp_TunConn = \<lparr>Protocol = tcp_ProtocolNumber,
     Handler = HTCPConn \<lparr>TCP_EndpointID = ID example_request, TCP_Request = example_request\<rparr>\<rparr>"

definition example_stack_env :: stack_env where
  "example_stack_env =
     \<lparr>GetMTU = (\<lambda>name. Inr 1500),
      tun_Open = (\<lambda>name. Inr 3),
      fdbased_New = (\<lambda>fds mtu. Inr 1),
      fresh_stack =
        \<lparr>networkProtocols = [], transportProtocols = [], handleLocal = True,
         icmpLimit = 1000, icmpBurst = 50, transportHandlers = Map.empty, nics = Map.empty,
         routeTable = [], forwarding = Map.empty,
         tcpSACKEnabled = True, tcpAlwaysUseSynCookies = True\<rparr>,
      icmpResponder_error = None\<rparr>"

definition listen_env :: env where
  "listen_env =
     session_with MessageListenerRequest
       (PListenerRequest \<lparr>Listen_Network = ''tcp'', Listen_Address = ''0.0.0.0:2222''\<rparr>)"

text \<open>
  One listener (7, asked for by session 1) and one accepted socket (9), each goroutine
  taking its steps in turn.
\<close>

definition parking_tasks :: "task list" where
  "parking_tasks =
     [Session listen_env 1, Accept 7 (Accepted 9), HandOff 7, Bind example_env 7, Store 7]"

definition parked_state :: agent_state where
  "parked_state =
     \<lparr>listenerConntrack = [1 \<mapsto> 9], listenerMap = [0 \<mapsto> 7],
      connTrackID = 1, listenerID = 1,
      serving = [7 \<mapsto> \<lparr>handler_conn = 1, sender = Accepting, receiver = Selecting\<rparr>]\<rparr>"

text \<open>
  Two listeners (7 for session 1, 8 for session 2), each accepting one socket (21 and 22).
  The second \<^verbatim>\<open>ListenAndServe\<close> increments the counter while the first waits to
  send; then each hands its id over, its handler streams the bind response, and it
  stores its socket.
\<close>

definition listen_b_env :: env where
  "listen_b_env =
     (session_with MessageListenerRequest
        (PListenerRequest \<lparr>Listen_Network = ''tcp'', Listen_Address = ''0.0.0.0:3333''\<rparr>))
     \<lparr>net_Listen := (\<lambda>network address. Inr 8)\<rparr>"

definition racing_tasks :: "task list" where
  "racing_tasks =
     [Session listen_env 1, Session listen_b_env 2,
      Accept 7 (Accepted 21), Accept 8 (Accepted 22),
      HandOff 7, Bind example_env 7, Store 7,
      HandOff 8, Bind example_env 8, Store 8]"

definition raced_state :: agent_state where
  "raced_state =
     \<lparr>listenerConntrack = [2 \<mapsto> 22], listenerMap = [0 \<mapsto> 7, 1 \<mapsto> 8],
      connTrackID = 2, listenerID = 2,
      serving = [7 \<mapsto> \<lparr>handler_conn = 1, sender = Accepting, receiver = Selecting\<rparr>,
                 8 \<mapsto> \<lparr>handler_conn = 2, sender = Accepting, receiver = Selecting\<rparr>]\<rparr>"

definition sock_env :: "int32 \<Rightarrow> env" where
  "sock_env sid =
     session_with MessageListenerSockRequest (PListenerSockRequest \<lparr>Req_SockID = sid\<rparr>)"

definition close_env :: "int32 \<Rightarrow> env" where
  "close_env lid =
     session_with MessageListenerCloseRequest (PListenerCloseRequest \<lparr>Req_ListenerID = lid\<rparr>)"

definition close_failing_env :: env where
  "close_failing_env =
     (close_env 0)\<lparr>Listener_Close := (\<lambda>lis. Some ''use of closed network connection'')\<rparr>"

definition info_nouser_env :: env where
  "info_nouser_env = info_env\<lparr>user_Current := Inl ''user: unknown userid 1000''\<rparr>"

definition info_nohost_env :: env where
  "info_nohost_env = info_env\<lparr>os_Hostname := Inl ''hostname: not available''\<rparr>"

section \<open>Facts about the handlers\<close>

lemma connectPacket_eq:
  "connectPacket hr r =
     \<lparr>Established = (case r of Inl err \<Rightarrow> False | Inr t \<Rightarrow> True),
      Reset = (case r of Inl err \<Rightarrow> (case dial_errno err of Some n \<Rightarrow> hr n | None \<Rightarrow> False)
                       | Inr t \<Rightarrow> False)\<rparr>"
  by (simp add: connectPacket_def Let_def split: sum.splits option.splits)

lemma handleConn_cases:
  assumes "handleConn ev conn s = res"
  shows "(\<exists>err. res = (Panicked err, [], s)) \<or>
         (\<exists>rq. res = handleConnectRequest ev conn rq s) \<or>
         (\<exists>rq. res = handleHostPingRequest ev conn rq s) \<or>
         res = handleInfoRequest ev conn s \<or>
         (\<exists>rq. res = handleListenerCloseRequest ev conn rq s) \<or>
         (\<exists>rq. res = handleListenerRequest ev conn rq s) \<or>
         (\<exists>rq. res = handleListenerSockRequest ev conn rq s) \<or>
         res = (Exited 0, [], s) \<or>
         res = (Returned, [], s)"
  using assms unfolding handleConn_def
  by (auto split: sum.splits message_type.splits payload.splits)

lemma fmt_d_80: "fmt_d 80 = ''80''"
  by code_simp

lemma fmt_d_81: "fmt_d 81 = ''81''"
  by code_simp

lemma session_with_simps:
  "Decode (session_with ty pl) = Inr \<lparr>Type = ty, Payload = pl\<rparr>"
  "DialContext (session_with ty pl) = DialContext example_env"
  "HostResponded (session_with ty pl) = HostResponded example_env"
  "Encode_result (session_with ty pl) = Encode_result example_env"
  "os_Hostname (session_with ty pl) = os_Hostname example_env"
  "user_Current (session_with ty pl) = user_Current example_env"
  "net_Interfaces (session_with ty pl) = net_Interfaces example_env"
  "NewNetInterfaces (session_with ty pl) = NewNetInterfaces example_env"
  "net_Listen (session_with ty pl) = net_Listen example_env"
  "Listener_Close (session_with ty pl) = Listener_Close example_env"
  by (simp_all add: session_with_def)

lemma main_loop_Cons:
  "main_loop (t # ts) s = (p, tr, s') \<Longrightarrow>
   \<exists>out acts s1. runTask t s = (out, acts, s1) \<and>
     ((tr = acts \<and> s' = s1 \<and> p \<noteq> Running) \<or>
      (\<exists>acts2. main_loop ts s1 = (p, acts2, s') \<and> tr = acts @ acts2))"
  by (cases "runTask t s"; cases "fst (runTask t s)"; cases "main_loop ts (snd (snd (runTask t s)))")
     auto

subsection \<open>Connect responses\<close>

lemma sound_replies_Nil [simp]: "sound_replies []"
  by (simp add: sound_replies_def)

lemma sound_replies_append [simp]:
  "sound_replies (xs @ ys) = (sound_replies xs \<and> sound_replies ys)"
  by (auto simp: sound_replies_def)

lemma sound_replies_handler_bind:
  "sound_replies (fst (snd (handler_bind ev lis s)))"
  by (auto simp: handler_bind_def Let_def encodeOrLog_def sound_replies_def
      split: option.splits receiver_phase.splits)

lemma sound_replies_handler_stop:
  "sound_replies (fst (snd (handler_stop ev lis s)))"
  by (auto simp: handler_stop_def Let_def encodeOrLog_def sound_replies_def
      split: option.splits sender_phase.splits receiver_phase.splits)

lemma sound_replies_handleConnectRequest:
  "sound_replies (fst (snd (handleConnectRequest ev conn rq s)))"
  by (auto simp: handleConnectRequest_def Let_def encodeOrFatal_def connectPacket_eq sound_replies_def
      split: option.splits sum.splits)

lemma sound_replies_handleHostPingRequest:
  "sound_replies (fst (snd (handleHostPingRequest ev conn rq s)))"
  by (auto simp: handleHostPingRequest_def Let_def encodeOrFatal_def sound_replies_def
      split: option.splits)

lemma sound_replies_handleInfoRequest:
  "sound_replies (fst (snd (handleInfoRequest ev conn s)))"
  by (auto simp: handleInfoRequest_def Let_def encodeOrFatal_def sound_replies_def
      split: option.splits sum.splits)

lemma sound_replies_handleListenerCloseRequest:
  "sound_replies (fst (snd (handleListenerCloseRequest ev conn rq s)))"
  by (auto simp: handleListenerCloseRequest_def Let_def encodeOrLog_def sound_replies_def
      split: option.splits)

lemma sound_replies_handleListenerSockRequest:
  "sound_replies (fst (snd (handleListenerSockRequest ev conn rq s)))"
  by (auto simp: handleListenerSockRequest_def Let_def encodeOrFatal_def sound_replies_def
      split: option.splits)

lemma sound_replies_handleListenerRequest:
  "sound_replies (fst (snd (handleListenerRequest ev conn rq s)))"
  by (auto simp: handleListenerRequest_def Let_def encodeOrLog_def sound_replies_def
      split: sum.splits option.splits)

lemma sound_replies_handleConn: "sound_replies (fst (snd (handleConn ev conn s)))"
  using handleConn_cases [OF refl, of ev conn s]
  by (elim disjE exE)
     (simp_all add: sound_replies_handleConnectRequest sound_replies_handleHostPingRequest
        sound_replies_handleInfoRequest sound_replies_handleListenerCloseRequest
        sound_replies_handleListenerSockRequest sound_replies_handleListenerRequest)

lemma sound_replies_runTask: "sound_replies (fst (snd (runTask t s)))"
  by (cases t)
     (simp_all add: sound_replies_handleConn sound_replies_handler_bind sound_replies_handler_stop)

lemma sound_replies_main_loop: "main_loop ts s = (p, tr, s') \<Longrightarrow> sound_replies tr"
proof (induction ts arbitrary: s p tr s')
  case Nil
  then show ?case by simp
next
  case (Cons t ts)
  from main_loop_Cons [OF Cons.prems] obtain out acts s1 where
    rt: "runTask t s = (out, acts, s1)" and
    alt: "(tr = acts \<and> s' = s1 \<and> p \<noteq> Running) \<or>
          (\<exists>acts2. main_loop ts s1 = (p, acts2, s') \<and> tr = acts @ acts2)"
    by blast
  have a: "sound_replies acts"
    using sound_replies_runTask [of t s] rt by simp
  from alt show ?case
  proof
    assume "tr = acts \<and> s' = s1 \<and> p \<noteq> Running"
    with a show ?thesis by simp
  next
    assume "\<exists>acts2. main_loop ts s1 = (p, acts2, s') \<and> tr = acts @ acts2"
    then obtain acts2 where "main_loop ts s1 = (p, acts2, s')" "tr = acts @ acts2" by blast
    with Cons.IH a show ?thesis by simp
  qed
qed

subsection \<open>Two connect sessions\<close>

lemma connect_refused_run:
  "handleConn connect_refused_env 3 agent_init =
     (Returned,
      [Dial ''tcp4'' ''10.0.0.5:81'' 5,
       Encode 3 \<lparr>Type = MessageConnectResponse,
                 Payload = PConnectResponse \<lparr>Established = False, Reset = True\<rparr>\<rparr>],
      agent_init)"
proof -
  let ?rq = "\<lparr>Net = Networkv4, Transport = TransportTCP, Address = ''10.0.0.5'', Port = 81\<rparr>"
  have d: "Decode connect_refused_env =
             Inr \<lparr>Type = MessageConnectRequest, Payload = PConnectRequest ?rq\<rparr>"
    by (simp add: connect_refused_env_def session_with_def)
  have n: "dialNetwork ?rq = ''tcp4''"
    by (simp add: dialNetwork_def)
  have a: "dialAddress ?rq = ''10.0.0.5:81''"
    by (simp add: dialAddress_def fmt_d_81)
  have r: "DialContext connect_refused_env ''tcp4'' ''10.0.0.5:81'' =
             Inl \<lparr>dial_msg = ''connect: connection refused'', dial_errno = Some 111\<rparr>"
    by (simp add: connect_refused_env_def)
  have h: "HostResponded connect_refused_env 111"
    by (simp add: connect_refused_env_def session_with_def example_env_def)
  have enc: "Encode_result connect_refused_env = (\<lambda>e. None)"
    by (simp add: connect_refused_env_def session_with_def example_env_def)
  show ?thesis
    by (simp add: handleConn_def handleConnectRequest_def d n a r h enc connectPacket_eq
        encodeOrFatal_def Let_def)
qed

lemma connect_ok_run:
  "handleConn connect_ok_env 4 agent_init =
     (Returned,
      [Dial ''tcp4'' ''10.0.0.5:80'' 5,
       Encode 4 \<lparr>Type = MessageConnectResponse,
                 Payload = PConnectResponse \<lparr>Established = True, Reset = False\<rparr>\<rparr>,
       StartRelay 42 4],
      agent_init)"
proof -
  let ?rq = "\<lparr>Net = Networkv4, Transport = TransportTCP, Address = ''10.0.0.5'', Port = 80\<rparr>"
  have d: "Decode connect_ok_env = Inr \<lparr>Type = MessageConnectRequest, Payload = PConnectRequest ?rq\<rparr>"
    by (simp add: connect_ok_env_def session_with_def)
  have n: "dialNetwork ?rq = ''tcp4''"
    by (simp add: dialNetwork_def)
  have a: "dialAddress ?rq = ''10.0.0.5:80''"
    by (simp add: dialAddress_def fmt_d_80)
  have r: "DialContext connect_ok_env ''tcp4'' ''10.0.0.5:80'' = Inr 42"
    by (simp add: connect_ok_env_def)
  have enc: "Encode_result connect_ok_env = (\<lambda>e. None)"
    by (simp add: connect_ok_env_def session_with_def example_env_def)
  show ?thesis
    by (simp add: handleConn_def handleConnectRequest_def d n a r enc connectPacket_eq
        encodeOrFatal_def Let_def)
qed

section \<open>The connect request\<close>

text \<open>
  What the connect case does, for every request: it dials the network named by the
  transport and the family (tcp4, tcp6, udp4 or udp6) at the string address:port, with a
  timeout of 5 seconds, and then hands exactly one envelope to the encoder, a
  ConnectResponse. When the dial fails, established is false, reset is true exactly when
  the error holds an errno for which the host-responded predicate is true, and no relay is
  started. When the dial succeeds, established is true, reset is false, and once the
  response is sent the dialled socket is relayed with the session.
\<close>

lemma connect_case:
  assumes "Decode ev = Inr e" and "Type e = MessageConnectRequest"
    and "Payload e = PConnectRequest rq"
  shows "\<exists>out pkt rest.
     handleConn ev conn s =
       (out, Dial (dialNetwork rq) (dialAddress rq) 5 #
             Encode conn \<lparr>Type = MessageConnectResponse, Payload = PConnectResponse pkt\<rparr> # rest, s) \<and>
     (\<forall>c m. Encode c m \<notin> set rest) \<and>
     (case DialContext ev (dialNetwork rq) (dialAddress rq) of
        Inl err \<Rightarrow>
          Established pkt = False \<and>
          Reset pkt = (\<exists>n. dial_errno err = Some n \<and> HostResponded ev n) \<and>
          (\<forall>a b. StartRelay a b \<notin> set rest)
      | Inr targetConn \<Rightarrow>
          Established pkt = True \<and> Reset pkt = False \<and>
          (Encode_result ev \<lparr>Type = MessageConnectResponse, Payload = PConnectResponse pkt\<rparr> = None
             \<longrightarrow> out = Returned \<and> rest = [StartRelay targetConn conn]))"
proof -
  have run: "handleConn ev conn s = handleConnectRequest ev conn rq s"
    using assms by (simp add: handleConn_def)
  show ?thesis
    unfolding run
    by (auto simp add: handleConnectRequest_def connectPacket_eq encodeOrFatal_def Let_def
        split: sum.splits option.splits)
qed

lemma fmt_d_8080: "fmt_d 8080 = ''8080''"
  by (simp add: fmt_d.simps)

lemma SplitHostPort_bare_v6: "SplitHostPort ''::1:8080'' = Inl ''too many colons in address''"
  by (simp add: SplitHostPort_def LastIndexByte_def IndexByte_def)

lemma SplitHostPort_joined_v6: "SplitHostPort (JoinHostPort ''::1'' ''8080'') = Inr (''::1'', ''8080'')"
  by (simp add: JoinHostPort_def SplitHostPort_def LastIndexByte_def IndexByte_def)

text \<open>
  Claim C1 on a request for an IPv6 literal: transport tcp, family v6, address ::1, port
  8080, on a host where a server listens at that address and port. The handler picks the
  network tcp6 for the family and builds the address with the format \<^verbatim>\<open>%s:%d\<close>, which
  gives ::1:8080, without the brackets that the dialer needs around a host with colons
  (\<^verbatim>\<open>net.JoinHostPort\<close> gives [::1]:8080). The dialer cannot split the string, the
  requested target is never dialled, and the response says established = false, where a
  dial of the requested target succeeds.
\<close>

theorem connect_ipv6_literal_not_dialled:
  "Decode connect_v6_env =
     Inr \<lparr>Type = MessageConnectRequest,
          Payload = PConnectRequest \<lparr>Net = Networkv6, Transport = TransportTCP,
                                     Address = ''::1'', Port = 8080\<rparr>\<rparr> \<and>
   dialAddress \<lparr>Net = Networkv6, Transport = TransportTCP, Address = ''::1'', Port = 8080\<rparr> =
     ''::1:8080'' \<and>
   SplitHostPort ''::1:8080'' = Inl ''too many colons in address'' \<and>
   SplitHostPort (JoinHostPort ''::1'' ''8080'') = Inr (''::1'', ''8080'') \<and>
   DialContext connect_v6_env ''tcp6'' (JoinHostPort ''::1'' ''8080'') = Inr 42 \<and>
   handleConn connect_v6_env 3 agent_init =
     (Returned,
      [Dial ''tcp6'' ''::1:8080'' 5,
       Encode 3 \<lparr>Type = MessageConnectResponse,
                 Payload = PConnectResponse \<lparr>Established = False, Reset = False\<rparr>\<rparr>],
      agent_init)"
proof -
  let ?rq = "\<lparr>Net = Networkv6, Transport = TransportTCP, Address = ''::1'', Port = 8080\<rparr>"
  have d: "Decode connect_v6_env =
             Inr \<lparr>Type = MessageConnectRequest, Payload = PConnectRequest ?rq\<rparr>"
    by (simp add: connect_v6_env_def session_with_def)
  have n: "dialNetwork ?rq = ''tcp6''"
    by (simp add: dialNetwork_def)
  have a: "dialAddress ?rq = ''::1:8080''"
    by (simp add: dialAddress_def fmt_d_8080)
  have bare: "DialContext connect_v6_env ''tcp6'' ''::1:8080'' =
                Inl \<lparr>dial_msg = ''too many colons in address'', dial_errno = None\<rparr>"
    by (simp add: connect_v6_env_def SplitHostPort_bare_v6)
  have joined: "DialContext connect_v6_env ''tcp6'' (JoinHostPort ''::1'' ''8080'') = Inr 42"
    by (simp add: connect_v6_env_def SplitHostPort_joined_v6)
  have enc: "Encode_result connect_v6_env = (\<lambda>e. None)"
    by (simp add: connect_v6_env_def session_with_def example_env_def)
  have run: "handleConn connect_v6_env 3 agent_init =
     (Returned,
      [Dial ''tcp6'' ''::1:8080'' 5,
       Encode 3 \<lparr>Type = MessageConnectResponse,
                 Payload = PConnectResponse \<lparr>Established = False, Reset = False\<rparr>\<rparr>],
      agent_init)"
    by (simp add: handleConn_def handleConnectRequest_def d n a bare enc connectPacket_eq
        encodeOrFatal_def Let_def)
  show ?thesis
    by (intro conjI d a SplitHostPort_bare_v6 SplitHostPort_joined_v6 joined run)
qed

text \<open>
  Claim C10. Whatever sessions the agent serves, a ConnectResponse that it hands to an
  encoder never has both flags set: established implies that reset is false.
\<close>

theorem established_excludes_reset:
  assumes "main_loop ts s = (p, tr, s')" and "Encode c m \<in> set tr"
    and "Payload m = PConnectResponse pkt" and "Established pkt"
  shows "\<not> Reset pkt"
  using sound_replies_main_loop [OF assms(1)] assms(2-4)
  by (simp add: sound_replies_def)

theorem established_excludes_reset_witness:
  "main_loop [Session connect_ok_env 4] agent_init =
     (Running,
      [Dial ''tcp4'' ''10.0.0.5:80'' 5,
       Encode 4 \<lparr>Type = MessageConnectResponse,
                 Payload = PConnectResponse \<lparr>Established = True, Reset = False\<rparr>\<rparr>,
       StartRelay 42 4],
      agent_init) \<and>
   Established \<lparr>Established = True, Reset = False\<rparr> \<and>
   \<not> Reset \<lparr>Established = True, Reset = False\<rparr>"
proof -
  let ?pkt = "\<lparr>Established = True, Reset = False\<rparr>"
  let ?m = "\<lparr>Type = MessageConnectResponse, Payload = PConnectResponse ?pkt\<rparr>"
  let ?tr = "[Dial ''tcp4'' ''10.0.0.5:80'' 5, Encode 4 ?m, StartRelay 42 4]"
  have run: "main_loop [Session connect_ok_env 4] agent_init = (Running, ?tr, agent_init)"
    by (simp add: connect_ok_run)
  have sent: "Encode 4 ?m \<in> set ?tr"
    by simp
  have pl: "Payload ?m = PConnectResponse ?pkt"
    by simp
  have est: "Established ?pkt"
    by simp
  from established_excludes_reset [OF run sent pl est] run est
  show ?thesis by blast
qed

section \<open>Malformed envelopes\<close>

text \<open>
  Claim C2 says that a session whose envelope cannot be decoded ends alone. In the code the
  handler panics with the decode error, and no goroutine of the agent recovers: the
  process ends, and a session that would have been answered is not served. Here the
  second session, an InfoRequest, gets its InfoReply when it is served alone and nothing
  when the malformed session comes first.
\<close>

theorem malformed_envelope_ends_process:
  "handleConn malformed_env 5 agent_init = (Panicked ''unexpected EOF'', [], agent_init) \<and>
   main_loop [Session malformed_env 5, Session info_env 6] agent_init =
     (Crashed ''unexpected EOF'', [], agent_init) \<and>
   main_loop [Session info_env 6] agent_init =
     (Running,
      [Encode 6 \<lparr>Type = MessageInfoReply,
                 Payload = PInfoReply \<lparr>Name = ''alice@gateway'', Interfaces = []\<rparr>\<rparr>],
      agent_init)"
proof -
  have bad: "handleConn malformed_env 5 agent_init = (Panicked ''unexpected EOF'', [], agent_init)"
    by (simp add: handleConn_def malformed_env_def example_env_def)
  have good: "handleConn info_env 6 agent_init =
     (Returned,
      [Encode 6 \<lparr>Type = MessageInfoReply,
                 Payload = PInfoReply \<lparr>Name = ''alice@gateway'', Interfaces = []\<rparr>\<rparr>],
      agent_init)"
    by (simp add: handleConn_def info_env_def session_with_simps handleInfoRequest_def
        example_env_def encodeOrFatal_def Let_def)
  show ?thesis
    by (simp add: bad good)
qed

text \<open>
  Claim C2 as amended: when the decode of a session's envelope fails, the handler sends
  nothing, changes nothing, and panics with the decode error; the panic ends the agent
  process, so no session after it is served.
\<close>

theorem decode_failure_panics:
  assumes "Decode ev = Inl err"
  shows "handleConn ev conn s = (Panicked err, [], s) \<and>
         main_loop (Session ev conn # ts) s = (Crashed err, [], s)"
  using assms by (simp add: handleConn_def)

theorem decode_failure_panics_witness:
  "Decode malformed_env = Inl ''unexpected EOF'' \<and>
   handleConn malformed_env 5 agent_init = (Panicked ''unexpected EOF'', [], agent_init) \<and>
   main_loop [Session malformed_env 5, Session info_env 6] agent_init =
     (Crashed ''unexpected EOF'', [], agent_init)"
proof -
  have d: "Decode malformed_env = Inl ''unexpected EOF''"
    by (simp add: malformed_env_def example_env_def)
  from decode_failure_panics [OF d, of 5 agent_init "[Session info_env 6]"] d
  show ?thesis by blast
qed

section \<open>The forwarder callbacks\<close>

text \<open>
  Claim C3. Whatever the pool's methods do: when the NetStack has no pool, or its pool
  says it is closed, the TCP and the UDP callback do nothing at all (no action, the
  NetStack unchanged). Otherwise each calls Add once, with the TunConn built from the
  request; when Add returns an error, the callback logs it and does nothing else. In no
  case does a callback complete the forwarder request.
\<close>

theorem forwarder_callbacks:
  "(pool s = None \<or> (\<exists>p. pool s = Some p \<and> Closed ops p) \<longrightarrow>
      tcpForwarder ops request s = ([], s) \<and> udpForwarder ops request s = ([], s)) \<and>
   (\<forall>p tcpConn udpConn.
      pool s = Some p \<and> \<not> Closed ops p \<and>
      tcpConn = \<lparr>Protocol = tcp_ProtocolNumber,
                 Handler = HTCPConn \<lparr>TCP_EndpointID = ID request, TCP_Request = request\<rparr>\<rparr> \<and>
      udpConn = \<lparr>Protocol = udp_ProtocolNumber,
                 Handler = HUDPConn \<lparr>UDP_EndpointID = ID request, UDP_Request = request\<rparr>\<rparr> \<longrightarrow>
      tcpForwarder ops request s =
        ((case fst (Add ops p tcpConn) of Some err \<Rightarrow> [LogErr err] | None \<Rightarrow> []),
         s\<lparr>pool := Some (snd (Add ops p tcpConn))\<rparr>) \<and>
      udpForwarder ops request s =
        ((case fst (Add ops p udpConn) of Some err \<Rightarrow> [LogErr err] | None \<Rightarrow> []),
         s\<lparr>pool := Some (snd (Add ops p udpConn))\<rparr>)) \<and>
   (\<forall>r b. Complete r b \<notin> set (fst (tcpForwarder ops request s)) \<and>
          Complete r b \<notin> set (fst (udpForwarder ops request s)))"
  by (auto simp: tcpForwarder_def udpForwarder_def Let_def split: option.splits prod.splits)

theorem forwarder_callbacks_witness:
  "pool (NewNetStack (Some example_pool)) = Some example_pool \<and>
   \<not> Closed ConnPool_ops example_pool \<and>
   tcpForwarder ConnPool_ops example_request (NewNetStack (Some example_pool)) =
     ([], \<lparr>pool = Some \<lparr>closed = False,
                           queue = [\<lparr>Protocol = 6,
                                     Handler = HTCPConn \<lparr>TCP_EndpointID = ID example_request,
                                                         TCP_Request = example_request\<rparr>\<rparr>]\<rparr>,
           stack = None\<rparr>) \<and>
   tcpForwarder ConnPool_ops example_request (NewNetStack (Some (example_pool\<lparr>closed := True\<rparr>))) =
     ([], NewNetStack (Some (example_pool\<lparr>closed := True\<rparr>))) \<and>
   udpForwarder ConnPool_ops example_request (NewNetStack None) = ([], NewNetStack None) \<and>
   udpForwarder late_close_ops example_request (NewNetStack (Some (example_pool\<lparr>closed := True\<rparr>))) =
     ([LogErr ''ClosedPool''], NewNetStack (Some (example_pool\<lparr>closed := True\<rparr>)))"
proof -
  let ?s = "NewNetStack (Some example_pool)"
  have p: "pool ?s = Some example_pool"
    by (simp add: NewNetStack_def)
  have c: "\<not> Closed ConnPool_ops example_pool"
    by (simp add: ConnPool_ops_def ConnPool_Closed_def example_pool_def)
  have a: "Add ConnPool_ops example_pool tc = (None, \<lparr>closed = False, queue = [tc]\<rparr>)" for tc
    by (simp add: ConnPool_ops_def ConnPool_Add_def example_pool_def)
  have c': "Closed ConnPool_ops (example_pool\<lparr>closed := True\<rparr>)"
    by (simp add: ConnPool_ops_def ConnPool_Closed_def)
  have p': "pool (NewNetStack (Some (example_pool\<lparr>closed := True\<rparr>)))
              = Some (example_pool\<lparr>closed := True\<rparr>)"
    by (simp add: NewNetStack_def)
  have n: "pool (NewNetStack None :: ConnPool NetStack) = None"
    by (simp add: NewNetStack_def)
  have open_case: "tcpForwarder ConnPool_ops example_request ?s =
     ([], \<lparr>pool = Some \<lparr>closed = False,
                           queue = [\<lparr>Protocol = 6,
                                     Handler = HTCPConn \<lparr>TCP_EndpointID = ID example_request,
                                                         TCP_Request = example_request\<rparr>\<rparr>]\<rparr>,
           stack = None\<rparr>)"
    using forwarder_callbacks [of ?s ConnPool_ops example_request] p c
    by (simp add: a tcp_ProtocolNumber_def NewNetStack_def)
  have closed_case:
    "tcpForwarder ConnPool_ops example_request (NewNetStack (Some (example_pool\<lparr>closed := True\<rparr>))) =
       ([], NewNetStack (Some (example_pool\<lparr>closed := True\<rparr>)))"
    using forwarder_callbacks
      [of "NewNetStack (Some (example_pool\<lparr>closed := True\<rparr>))" ConnPool_ops example_request] p' c'
    by blast
  have nil_case: "udpForwarder ConnPool_ops example_request (NewNetStack None) = ([], NewNetStack None)"
    using forwarder_callbacks [of "NewNetStack None :: ConnPool NetStack" ConnPool_ops example_request] n
    by blast
  have l: "\<not> Closed late_close_ops (example_pool\<lparr>closed := True\<rparr>)"
    by (simp add: late_close_ops_def)
  have f: "Add late_close_ops (example_pool\<lparr>closed := True\<rparr>) tc =
             (Some ''ClosedPool'', example_pool\<lparr>closed := True\<rparr>)" for tc
    by (simp add: late_close_ops_def ConnPool_Add_def)
  have late_case:
    "udpForwarder late_close_ops example_request (NewNetStack (Some (example_pool\<lparr>closed := True\<rparr>))) =
       ([LogErr ''ClosedPool''], NewNetStack (Some (example_pool\<lparr>closed := True\<rparr>)))"
    using forwarder_callbacks
      [of "NewNetStack (Some (example_pool\<lparr>closed := True\<rparr>))" late_close_ops example_request] p' l
    by (simp add: f NewNetStack_def)
  from p c open_case closed_case nil_case late_case show ?thesis by blast
qed

section \<open>Terminating a tun-connection\<close>

text \<open>
  Claim C5 says that Terminate releases the packet buffer that an ICMP TunConn owns. The
  code does nothing unless the TunConn is TCP ("For now, this is only useful for TCP
  connections"): on an ICMP TunConn it performs no action, where the specification's
  wording asks for the release of the buffer.
\<close>

theorem terminate_releases_nothing:
  "Terminate icmp_TunConn True = Inr [] \<and>
   Terminate_spec icmp_TunConn True = Inr [DecRef 7] \<and>
   Terminate icmp_TunConn True \<noteq> Terminate_spec icmp_TunConn True"
  by (simp add: Terminate_def Terminate_spec_def IsTCP_def icmp_TunConn_def
      tcp_ProtocolNumber_def icmp_ProtocolNumber4_def)

text \<open>
  Claim C5 as amended: Terminate completes the forwarder request of a TCP TunConn with
  the reset flag it is given, and does nothing with a UDP or an ICMP TunConn (the datagram
  is left alone, the packet buffer is not released).
\<close>

theorem terminate_by_kind:
  "Terminate \<lparr>Protocol = tcp_ProtocolNumber, Handler = HTCPConn c\<rparr> reset =
     Inr [Complete (TCP_Request c) reset] \<and>
   Terminate \<lparr>Protocol = udp_ProtocolNumber, Handler = HUDPConn u\<rparr> reset = Inr [] \<and>
   Terminate \<lparr>Protocol = icmp_ProtocolNumber4, Handler = HICMPConn i\<rparr> reset = Inr []"
  by (simp add: Terminate_def IsTCP_def GetTCP_def
      tcp_ProtocolNumber_def udp_ProtocolNumber_def icmp_ProtocolNumber4_def)

theorem terminate_by_kind_witness:
  "Terminate tcp_TunConn True = Inr [Complete example_request True] \<and>
   Terminate tcp_TunConn False = Inr [Complete example_request False] \<and>
   Terminate udp_TunConn True = Inr [] \<and>
   Terminate icmp_TunConn False = Inr []"
  using terminate_by_kind [of "\<lparr>TCP_EndpointID = ID example_request, TCP_Request = example_request\<rparr>" True
          "\<lparr>UDP_EndpointID = ID example_request, UDP_Request = example_request\<rparr>"
          "\<lparr>ICMP_Request = 7\<rparr>"]
        terminate_by_kind [of "\<lparr>TCP_EndpointID = ID example_request, TCP_Request = example_request\<rparr>" False
          "\<lparr>UDP_EndpointID = ID example_request, UDP_Request = example_request\<rparr>"
          "\<lparr>ICMP_Request = 7\<rparr>"]
  by (simp add: tcp_TunConn_def udp_TunConn_def icmp_TunConn_def)

section \<open>Stack construction\<close>

lemma new_Inr:
  assumes "new env tunName s = Inr (ns, s')"
  shows "\<exists>linkEP ns0 ns1 ns2.
     ns0 = SetTransportProtocolHandler udp_ProtocolNumber UDPForwarder
            (SetTransportProtocolHandler tcp_ProtocolNumber (TCPForwarder 0 4096)
              (SetICMPBurst 0 (SetICMPLimit 0
                (stack_New (fresh_stack env)
                   \<lparr>NetworkProtocols = [ipv4_ProtocolNumber, ipv6_ProtocolNumber],
                    TransportProtocols = [tcp_ProtocolNumber, udp_ProtocolNumber,
                                          icmp_ProtocolNumber4, icmp_ProtocolNumber6],
                    HandleLocal = False\<rparr>)))) \<and>
     CreateNIC 1 linkEP ns0 = Inr ns1 \<and>
     icmpResponder env ns1 = Inr ns2 \<and>
     ns = SetSpoofing 1 True (SetPromiscuousMode 1 True
            (SetTransportProtocolOption tcp_ProtocolNumber (TCPAlwaysUseSynCookies False)
              (SetTransportProtocolOption tcp_ProtocolNumber (TCPSACKEnabled False)
                (SetForwardingDefaultAndAllNICs ipv6_ProtocolNumber False
                  (SetForwardingDefaultAndAllNICs ipv4_ProtocolNumber False
                    (SetRouteTable
                       [\<lparr>Destination = IPv4EmptySubnet, Gateway = [], NIC = 1\<rparr>,
                        \<lparr>Destination = IPv6EmptySubnet, Gateway = [], NIC = 1\<rparr>] ns2)))))) \<and>
     s' = s\<lparr>stack := Some ns\<rparr>"
  using assms
  by (simp add: new_def Let_def split: sum.splits) blast

lemma before_nic:
  assumes "ns0 = SetTransportProtocolHandler udp_ProtocolNumber UDPForwarder
            (SetTransportProtocolHandler tcp_ProtocolNumber (TCPForwarder 0 4096)
              (SetICMPBurst 0 (SetICMPLimit 0
                (stack_New fresh
                   \<lparr>NetworkProtocols = [ipv4_ProtocolNumber, ipv6_ProtocolNumber],
                    TransportProtocols = [tcp_ProtocolNumber, udp_ProtocolNumber,
                                          icmp_ProtocolNumber4, icmp_ProtocolNumber6],
                    HandleLocal = False\<rparr>))))"
  shows "icmpLimit ns0 = 0" and "icmpBurst ns0 = 0"
    and "networkProtocols ns0 = [ipv4_ProtocolNumber, ipv6_ProtocolNumber]"
    and "transportProtocols ns0 = [tcp_ProtocolNumber, udp_ProtocolNumber,
                                   icmp_ProtocolNumber4, icmp_ProtocolNumber6]"
  unfolding assms
  by (simp_all add: stack_New_def SetICMPLimit_def SetICMPBurst_def SetTransportProtocolHandler_def)

lemma CreateNIC_Inr:
  assumes "CreateNIC n ep st = Inr st'"
  shows "nics st' n = Some \<lparr>nic_linkEP = ep, nic_promiscuous = False, nic_spoofing = False\<rparr>"
    and "icmpLimit st' = icmpLimit st" and "icmpBurst st' = icmpBurst st"
    and "networkProtocols st' = networkProtocols st"
    and "transportProtocols st' = transportProtocols st"
  using assms by (auto simp: CreateNIC_def split: if_splits)

lemma icmpResponder_Inr:
  assumes "icmpResponder env st = Inr st'"
  shows "nics st' = nics st"
    and "icmpLimit st' = icmpLimit st" and "icmpBurst st' = icmpBurst st"
    and "networkProtocols st' = networkProtocols st"
    and "transportProtocols st' = transportProtocols st"
  using assms by (auto simp: icmpResponder_def split: option.splits)

lemma after_nic:
  assumes "nics st 1 = Some \<lparr>nic_linkEP = ep, nic_promiscuous = False, nic_spoofing = False\<rparr>"
    and "networkProtocols st = [ipv4_ProtocolNumber, ipv6_ProtocolNumber]"
    and "transportProtocols st = [tcp_ProtocolNumber, udp_ProtocolNumber,
                                  icmp_ProtocolNumber4, icmp_ProtocolNumber6]"
    and "ns = SetSpoofing 1 True (SetPromiscuousMode 1 True
            (SetTransportProtocolOption tcp_ProtocolNumber (TCPAlwaysUseSynCookies False)
              (SetTransportProtocolOption tcp_ProtocolNumber (TCPSACKEnabled False)
                (SetForwardingDefaultAndAllNICs ipv6_ProtocolNumber False
                  (SetForwardingDefaultAndAllNICs ipv4_ProtocolNumber False
                    (SetRouteTable rt st))))))"
  shows "tcpSACKEnabled ns = False" and "tcpAlwaysUseSynCookies ns = False"
    and "forwarding ns ipv4_ProtocolNumber = Some False"
    and "forwarding ns ipv6_ProtocolNumber = Some False"
    and "nics ns 1 = Some \<lparr>nic_linkEP = ep, nic_promiscuous = True, nic_spoofing = True\<rparr>"
    and "icmpLimit ns = icmpLimit st" and "icmpBurst ns = icmpBurst st"
    and "routeTable ns = rt"
  unfolding assms(4) using assms(1-3)
  by (simp_all add: SetRouteTable_def SetForwardingDefaultAndAllNICs_def
        SetTransportProtocolOption_def SetPromiscuousMode_def SetSpoofing_def
        ipv4_ProtocolNumber_def ipv6_ProtocolNumber_def)

text \<open>
  Claim C9. When construction succeeds, the stack it returns (and stores in the NetStack)
  has TCP SACK and always-use-SYN-cookies disabled, forwarding disabled for IPv4 and for
  IPv6, NIC 1 in promiscuous mode with spoofing enabled, an ICMP limit and burst of zero,
  and a route table of exactly two routes, the empty IPv4 subnet and the empty IPv6
  subnet, both via NIC 1.
\<close>

theorem stack_configuration:
  assumes "new env tunName s = Inr (ns, s')"
  shows "tcpSACKEnabled ns = False \<and>
         tcpAlwaysUseSynCookies ns = False \<and>
         forwarding ns ipv4_ProtocolNumber = Some False \<and>
         forwarding ns ipv6_ProtocolNumber = Some False \<and>
         (\<exists>linkEP. nics ns 1 = Some \<lparr>nic_linkEP = linkEP, nic_promiscuous = True, nic_spoofing = True\<rparr>) \<and>
         icmpLimit ns = 0 \<and> icmpBurst ns = 0 \<and>
         routeTable ns = [\<lparr>Destination = IPv4EmptySubnet, Gateway = [], NIC = 1\<rparr>,
                          \<lparr>Destination = IPv6EmptySubnet, Gateway = [], NIC = 1\<rparr>] \<and>
         stack s' = Some ns"
proof -
  let ?rt = "[\<lparr>Destination = IPv4EmptySubnet, Gateway = [], NIC = 1\<rparr>,
              \<lparr>Destination = IPv6EmptySubnet, Gateway = [], NIC = 1\<rparr>]"
  from new_Inr [OF assms] obtain linkEP ns0 ns1 ns2 where
    ns0: "ns0 = SetTransportProtocolHandler udp_ProtocolNumber UDPForwarder
            (SetTransportProtocolHandler tcp_ProtocolNumber (TCPForwarder 0 4096)
              (SetICMPBurst 0 (SetICMPLimit 0
                (stack_New (fresh_stack env)
                   \<lparr>NetworkProtocols = [ipv4_ProtocolNumber, ipv6_ProtocolNumber],
                    TransportProtocols = [tcp_ProtocolNumber, udp_ProtocolNumber,
                                          icmp_ProtocolNumber4, icmp_ProtocolNumber6],
                    HandleLocal = False\<rparr>))))"
    and ns1: "CreateNIC 1 linkEP ns0 = Inr ns1"
    and ns2: "icmpResponder env ns1 = Inr ns2"
    and ns: "ns = SetSpoofing 1 True (SetPromiscuousMode 1 True
            (SetTransportProtocolOption tcp_ProtocolNumber (TCPAlwaysUseSynCookies False)
              (SetTransportProtocolOption tcp_ProtocolNumber (TCPSACKEnabled False)
                (SetForwardingDefaultAndAllNICs ipv6_ProtocolNumber False
                  (SetForwardingDefaultAndAllNICs ipv4_ProtocolNumber False
                    (SetRouteTable ?rt ns2))))))"
    and s': "s' = s\<lparr>stack := Some ns\<rparr>"
    by blast
  note a = before_nic [OF ns0]
  note b = CreateNIC_Inr [OF ns1]
  note c = icmpResponder_Inr [OF ns2]
  have nic: "nics ns2 1 = Some \<lparr>nic_linkEP = linkEP, nic_promiscuous = False, nic_spoofing = False\<rparr>"
    using b(1) c(1) by simp
  have np: "networkProtocols ns2 = [ipv4_ProtocolNumber, ipv6_ProtocolNumber]"
    by (simp add: a b c)
  have tp: "transportProtocols ns2 = [tcp_ProtocolNumber, udp_ProtocolNumber,
                                      icmp_ProtocolNumber4, icmp_ProtocolNumber6]"
    by (simp add: a b c)
  note d = after_nic [OF nic np tp ns]
  have lim: "icmpLimit ns = 0" "icmpBurst ns = 0"
    by (simp_all add: a b c d)
  from d(1-5) lim d(8) s' show ?thesis
    by simp
qed

theorem stack_configuration_witness:
  "(\<exists>ns s'. new example_stack_env ''ligolo'' (NewNetStack (Some example_pool)) = Inr (ns, s') \<and>
      tcpSACKEnabled ns = False \<and> tcpAlwaysUseSynCookies ns = False \<and>
      forwarding ns ipv4_ProtocolNumber = Some False \<and>
      forwarding ns ipv6_ProtocolNumber = Some False \<and>
      nics ns 1 = Some \<lparr>nic_linkEP = 1, nic_promiscuous = True, nic_spoofing = True\<rparr> \<and>
      icmpLimit ns = 0 \<and> icmpBurst ns = 0 \<and> length (routeTable ns) = 2 \<and>
      stack s' = Some ns)"
proof -
  obtain r where r: "new example_stack_env ''ligolo'' (NewNetStack (Some example_pool)) = r"
    by simp
  have "\<exists>ns s'. r = Inr (ns, s') \<and> nics ns 1 \<noteq> None \<and> nic_linkEP (the (nics ns 1)) = 1"
    unfolding r [symmetric]
    by (simp add: new_def example_stack_env_def Let_def stack_New_def SetICMPLimit_def
        SetICMPBurst_def SetTransportProtocolHandler_def CreateNIC_def icmpResponder_def
        SetRouteTable_def SetForwardingDefaultAndAllNICs_def SetTransportProtocolOption_def
        SetPromiscuousMode_def SetSpoofing_def tcp_ProtocolNumber_def udp_ProtocolNumber_def
        ipv4_ProtocolNumber_def ipv6_ProtocolNumber_def)
  then obtain ns s' where ok: "r = Inr (ns, s')" and ep: "nic_linkEP (the (nics ns 1)) = 1"
    by blast
  from stack_configuration [of example_stack_env "''ligolo''" "NewNetStack (Some example_pool)" ns s']
    r ok ep
  show ?thesis by auto
qed

section \<open>The listener registry\<close>

subsection \<open>An example: one listener, one parked socket\<close>

lemma example_env_simps:
  "Encode_result example_env = (\<lambda>e. None)"
  "os_Hostname example_env = Inr ''gateway''"
  "user_Current example_env = Inr \<lparr>Username = ''alice''\<rparr>"
  "net_Interfaces example_env = Inr []"
  "NewNetInterfaces example_env [] = []"
  "net_Listen example_env = (\<lambda>network address. Inr 7)"
  "Listener_Close example_env = (\<lambda>lis. None)"
  by (simp_all add: example_env_def)

lemma listen_reaches_parked:
  "main_loop parking_tasks agent_init =
     (Running,
      [Listen ''tcp'' ''0.0.0.0:2222'',
       Encode 1 \<lparr>Type = MessageListenerResponse,
                 Payload = PListenerResponse \<lparr>ListenerID = 0, Lis_Err = False, Lis_ErrString = ''''\<rparr>\<rparr>,
       Encode 1 (bindOk 1)],
      parked_state)"
  by (simp add: parking_tasks_def handleConn_def listen_env_def session_with_def
      example_env_def handleListenerRequest_def encodeOrLog_def Let_def agent_init_def
      ListenAndServe_Accept_def connTrackChan_handoff_def ListenAndServe_store_def
      handler_bind_def parked_state_def bindOk_def)

lemma sock_request_parked:
  "handleConn (sock_env 1) 2 parked_state =
     (Returned,
      [Encode 2 \<lparr>Type = MessageListenerSockResponse,
                 Payload = PListenerSockResponse \<lparr>Sock_Err = False, Sock_ErrString = ''''\<rparr>\<rparr>,
       StartRelay 9 2],
      parked_state)"
  by (simp add: handleConn_def sock_env_def session_with_simps example_env_simps
      handleListenerSockRequest_def encodeOrFatal_def Let_def parked_state_def)

lemma close_request_parked:
  "handleConn (close_env 0) 3 parked_state =
     (Returned,
      [CloseListener 7,
       Encode 3 \<lparr>Type = MessageListenerCloseResponse,
                 Payload = PListenerCloseResponse \<lparr>Close_Err = False, Close_ErrString = ''''\<rparr>\<rparr>],
      parked_state)"
  by (simp add: handleConn_def close_env_def session_with_simps example_env_simps
      handleListenerCloseRequest_def encodeOrLog_def Let_def parked_state_def)

text \<open>
  Claim C4 says that a ListenerSockRequest removes the entry it claims from the conntrack
  table, and that closing a listener closes the accepted sockets still parked. The agent
  never deletes from either table. After one accepted socket has been parked under id 1,
  serving ListenerSockRequest 1 leaves the entry in place, and serving the close request of
  the listener closes the listener and sends the response, while socket 9 stays parked
  under id 1, not closed.
\<close>

theorem conntrack_entries_stay:
  "listenerConntrack parked_state 1 = Some 9 \<and>
   listenerConntrack (snd (snd (handleConn (sock_env 1) 2 parked_state))) 1 = Some 9 \<and>
   handleConn (close_env 0) 3 parked_state =
     (Returned,
      [CloseListener 7,
       Encode 3 \<lparr>Type = MessageListenerCloseResponse,
                 Payload = PListenerCloseResponse \<lparr>Close_Err = False, Close_ErrString = ''''\<rparr>\<rparr>],
      parked_state)"
  by (simp add: sock_request_parked close_request_parked) (simp add: parked_state_def)

text \<open>
  Claim C4 as amended: serving a ListenerSockRequest leaves the agent's tables as they
  are (the entry stays in conntrack), and serving a ListenerCloseRequest leaves them as
  they are too: it closes the listener found under the id, if any, sends its response, and
  does nothing to the parked sockets.
\<close>

theorem conntrack_unchanged:
  assumes "Decode ev = Inr e"
  shows "(\<forall>rq. Type e = MessageListenerSockRequest \<and> Payload e = PListenerSockRequest rq \<longrightarrow>
            snd (snd (handleConn ev conn s)) = s) \<and>
         (\<forall>rq. Type e = MessageListenerCloseRequest \<and> Payload e = PListenerCloseRequest rq \<longrightarrow>
            (\<exists>reply. handleConn ev conn s =
               (Returned,
                (case listenerMap s (Req_ListenerID rq) of
                   Some lis \<Rightarrow> [CloseListener lis] | None \<Rightarrow> []) @ encodeOrLog ev conn reply,
                s)))"
  using assms
  by (auto simp: handleConn_def handleListenerSockRequest_def handleListenerCloseRequest_def
      encodeOrFatal_def Let_def split: option.splits)

theorem conntrack_unchanged_witness:
  "Decode (sock_env 1) =
     Inr \<lparr>Type = MessageListenerSockRequest, Payload = PListenerSockRequest \<lparr>Req_SockID = 1\<rparr>\<rparr> \<and>
   snd (snd (handleConn (sock_env 1) 2 parked_state)) = parked_state \<and>
   listenerConntrack parked_state 1 = Some 9 \<and>
   Decode (close_env 0) =
     Inr \<lparr>Type = MessageListenerCloseRequest,
          Payload = PListenerCloseRequest \<lparr>Req_ListenerID = 0\<rparr>\<rparr> \<and>
   (\<exists>reply. handleConn (close_env 0) 3 parked_state =
      (Returned, CloseListener 7 # encodeOrLog (close_env 0) 3 reply, parked_state))"
proof -
  let ?e = "\<lparr>Type = MessageListenerSockRequest, Payload = PListenerSockRequest \<lparr>Req_SockID = 1\<rparr>\<rparr>"
  let ?c = "\<lparr>Type = MessageListenerCloseRequest,
            Payload = PListenerCloseRequest \<lparr>Req_ListenerID = 0\<rparr>\<rparr>"
  have d: "Decode (sock_env 1) = Inr ?e"
    by (simp add: sock_env_def session_with_simps)
  have t: "Type ?e = MessageListenerSockRequest \<and>
           Payload ?e = PListenerSockRequest \<lparr>Req_SockID = 1\<rparr>"
    by simp
  have d': "Decode (close_env 0) = Inr ?c"
    by (simp add: close_env_def session_with_simps)
  have t': "Type ?c = MessageListenerCloseRequest \<and>
            Payload ?c = PListenerCloseRequest \<lparr>Req_ListenerID = 0\<rparr>"
    by simp
  have c: "listenerConntrack parked_state 1 = Some 9"
    by (simp add: parked_state_def)
  have l: "listenerMap parked_state (Req_ListenerID \<lparr>Req_ListenerID = 0\<rparr>) = Some 7"
    by (simp add: parked_state_def)
  from conntrack_unchanged [OF d, of 2 parked_state] t
  have first: "snd (snd (handleConn (sock_env 1) 2 parked_state)) = parked_state"
    by blast
  from conntrack_unchanged [OF d', of 3 parked_state] t'
  have "\<exists>reply. handleConn (close_env 0) 3 parked_state =
      (Returned,
       (case listenerMap parked_state (Req_ListenerID \<lparr>Req_ListenerID = 0\<rparr>) of
          Some lis \<Rightarrow> [CloseListener lis] | None \<Rightarrow> []) @ encodeOrLog (close_env 0) 3 reply,
       parked_state)"
    by blast
  then have second: "\<exists>reply. handleConn (close_env 0) 3 parked_state =
      (Returned, CloseListener 7 # encodeOrLog (close_env 0) 3 reply, parked_state)"
    unfolding l by simp
  from d first c d' second show ?thesis by blast
qed

text \<open>
  Claim C6 says that a ListenerCloseRequest closes the listener and removes it from the
  registry. The listener is closed but stays in the registry.
\<close>

theorem closed_listener_stays_registered:
  "listenerMap parked_state 0 = Some 7 \<and>
   listenerMap (snd (snd (handleConn (close_env 0) 3 parked_state))) 0 = Some 7"
  by (simp add: close_request_parked) (simp add: parked_state_def)

text \<open>
  Claim C6 as amended: a ListenerCloseRequest closes the listener registered under the id,
  if there is one, and leaves the registry unchanged; the agent then hands exactly one
  ListenerCloseResponse to the encoder, whose err field is true exactly when the id is
  unknown or the close failed; err_string then holds the text of the error, and is empty
  otherwise.
\<close>

theorem listener_close_reply:
  assumes "Decode ev = Inr e" and "Type e = MessageListenerCloseRequest"
    and "Payload e = PListenerCloseRequest rq"
  shows "\<exists>resp logs.
     handleConn ev conn s =
       (Returned,
        (case listenerMap s (Req_ListenerID rq) of
           Some lis \<Rightarrow> [CloseListener lis] | None \<Rightarrow> []) @
        Encode conn \<lparr>Type = MessageListenerCloseResponse,
                       Payload = PListenerCloseResponse resp\<rparr> # logs,
        s) \<and>
     (\<forall>c m. Encode c m \<notin> set logs) \<and>
     (Close_Err resp \<longleftrightarrow>
        listenerMap s (Req_ListenerID rq) = None \<or>
        (\<exists>lis err. listenerMap s (Req_ListenerID rq) = Some lis \<and> Listener_Close ev lis = Some err)) \<and>
     (listenerMap s (Req_ListenerID rq) = None \<longrightarrow> Close_ErrString resp = ''invalid listener id'') \<and>
     (\<forall>lis err. listenerMap s (Req_ListenerID rq) = Some lis \<and> Listener_Close ev lis = Some err
        \<longrightarrow> Close_ErrString resp = err) \<and>
     (\<not> Close_Err resp \<longrightarrow> Close_ErrString resp = '''')"
  using assms
  by (auto simp: handleConn_def handleListenerCloseRequest_def encodeOrLog_def Let_def
      split: option.splits)

theorem listener_close_reply_witness:
  "Decode (close_env 0) =
     Inr \<lparr>Type = MessageListenerCloseRequest,
          Payload = PListenerCloseRequest \<lparr>Req_ListenerID = 0\<rparr>\<rparr> \<and>
   handleConn (close_env 0) 3 parked_state =
     (Returned,
      [CloseListener 7,
       Encode 3 \<lparr>Type = MessageListenerCloseResponse,
                 Payload = PListenerCloseResponse \<lparr>Close_Err = False, Close_ErrString = ''''\<rparr>\<rparr>],
      parked_state) \<and>
   handleConn (close_env 5) 3 parked_state =
     (Returned,
      [Encode 3 \<lparr>Type = MessageListenerCloseResponse,
                 Payload = PListenerCloseResponse
                   \<lparr>Close_Err = True, Close_ErrString = ''invalid listener id''\<rparr>\<rparr>],
      parked_state) \<and>
   handleConn close_failing_env 3 parked_state =
     (Returned,
      [CloseListener 7,
       Encode 3 \<lparr>Type = MessageListenerCloseResponse,
                 Payload = PListenerCloseResponse
                   \<lparr>Close_Err = True, Close_ErrString = ''use of closed network connection''\<rparr>\<rparr>],
      parked_state)"
proof -
  let ?e0 = "\<lparr>Type = MessageListenerCloseRequest,
             Payload = PListenerCloseRequest \<lparr>Req_ListenerID = 0\<rparr>\<rparr>"
  let ?e5 = "\<lparr>Type = MessageListenerCloseRequest,
             Payload = PListenerCloseRequest \<lparr>Req_ListenerID = 5\<rparr>\<rparr>"
  have d0: "Decode (close_env 0) = Inr ?e0"
    by (simp add: close_env_def session_with_simps)
  have d5: "Decode (close_env 5) = Inr ?e5"
    by (simp add: close_env_def session_with_simps)
  have df: "Decode close_failing_env = Inr ?e0"
    by (simp add: close_failing_env_def close_env_def session_with_simps)
  have t0: "Type ?e0 = MessageListenerCloseRequest"
    and p0: "Payload ?e0 = PListenerCloseRequest \<lparr>Req_ListenerID = 0\<rparr>"
    by simp_all
  have t5: "Type ?e5 = MessageListenerCloseRequest"
    and p5: "Payload ?e5 = PListenerCloseRequest \<lparr>Req_ListenerID = 5\<rparr>"
    by simp_all
  have unknown: "handleConn (close_env 5) 3 parked_state =
      (Returned,
       [Encode 3 \<lparr>Type = MessageListenerCloseResponse,
                  Payload = PListenerCloseResponse
                    \<lparr>Close_Err = True, Close_ErrString = ''invalid listener id''\<rparr>\<rparr>],
       parked_state)"
    by (simp add: handleConn_def close_env_def session_with_simps example_env_simps
        handleListenerCloseRequest_def encodeOrLog_def Let_def parked_state_def)
  have failing: "handleConn close_failing_env 3 parked_state =
     (Returned,
      [CloseListener 7,
       Encode 3 \<lparr>Type = MessageListenerCloseResponse,
                 Payload = PListenerCloseResponse
                   \<lparr>Close_Err = True, Close_ErrString = ''use of closed network connection''\<rparr>\<rparr>],
      parked_state)"
    by (simp add: handleConn_def close_failing_env_def close_env_def session_with_def
        example_env_def handleListenerCloseRequest_def encodeOrLog_def Let_def parked_state_def)
  from listener_close_reply [OF d0 t0 p0, of 3 parked_state]
       listener_close_reply [OF d5 t5 p5, of 3 parked_state]
       listener_close_reply [OF df t0 p0, of 3 parked_state]
       d0 close_request_parked unknown failing
  show ?thesis by blast
qed

text \<open>
  What the sock case does, in any state: it hands exactly one envelope to the encoder, a
  ListenerSockResponse. When the id is not in the conntrack table, err is true and no
  relay is started. When it is, err is false and, once the response is sent, the socket
  found under the id is relayed with the session.
\<close>

lemma sock_case:
  assumes "Decode ev = Inr e" and "Type e = MessageListenerSockRequest"
    and "Payload e = PListenerSockRequest rq"
  shows "\<exists>out resp rest.
     handleConn ev conn s =
       (out, Encode conn \<lparr>Type = MessageListenerSockResponse,
                            Payload = PListenerSockResponse resp\<rparr> # rest, s) \<and>
     (\<forall>c m. Encode c m \<notin> set rest) \<and>
     (listenerConntrack s (Req_SockID rq) = None \<longrightarrow>
        Sock_Err resp \<and> (\<forall>a b. StartRelay a b \<notin> set rest)) \<and>
     (\<forall>netConn. listenerConntrack s (Req_SockID rq) = Some netConn \<longrightarrow>
        \<not> Sock_Err resp \<and>
        (Encode_result ev \<lparr>Type = MessageListenerSockResponse,
                            Payload = PListenerSockResponse resp\<rparr> = None
           \<longrightarrow> out = Returned \<and> rest = [StartRelay netConn conn]))"
proof -
  have run: "handleConn ev conn s = handleListenerSockRequest ev conn rq s"
    using assms by (simp add: handleConn_def)
  show ?thesis
    unfolding run
    by (auto simp: handleListenerSockRequest_def encodeOrFatal_def Let_def split: option.splits)
qed

lemma racing_run:
  "main_loop racing_tasks agent_init =
     (Running,
      [Listen ''tcp'' ''0.0.0.0:2222'',
       Encode 1 \<lparr>Type = MessageListenerResponse,
                 Payload = PListenerResponse \<lparr>ListenerID = 0, Lis_Err = False, Lis_ErrString = ''''\<rparr>\<rparr>,
       Listen ''tcp'' ''0.0.0.0:3333'',
       Encode 2 \<lparr>Type = MessageListenerResponse,
                 Payload = PListenerResponse \<lparr>ListenerID = 1, Lis_Err = False, Lis_ErrString = ''''\<rparr>\<rparr>,
       Encode 1 (bindOk 1),
       Encode 2 (bindOk 2)],
      raced_state)"
  by (simp add: racing_tasks_def handleConn_def listen_env_def listen_b_env_def session_with_def
      example_env_def handleListenerRequest_def encodeOrLog_def Let_def agent_init_def
      ListenAndServe_Accept_def connTrackChan_handoff_def ListenAndServe_store_def
      handler_bind_def raced_state_def bindOk_def fun_upd_twist)

text \<open>
  Claim C7 on a run with two listeners. The agent has streamed a bind response for sock
  id 1 and one for sock id 2, both sent without error. The first listener stored its
  socket after the second had incremented the counter, under the counter's value at that
  time, which is 2; the second listener then stored its own socket under 2 as well. No
  socket is parked under id 1, so the ListenerSockRequest for id 1 is answered err = true,
  although a matching bind response was streamed.
\<close>

theorem announced_socket_not_parked:
  "main_loop racing_tasks agent_init =
     (Running,
      [Listen ''tcp'' ''0.0.0.0:2222'',
       Encode 1 \<lparr>Type = MessageListenerResponse,
                 Payload = PListenerResponse \<lparr>ListenerID = 0, Lis_Err = False, Lis_ErrString = ''''\<rparr>\<rparr>,
       Listen ''tcp'' ''0.0.0.0:3333'',
       Encode 2 \<lparr>Type = MessageListenerResponse,
                 Payload = PListenerResponse \<lparr>ListenerID = 1, Lis_Err = False, Lis_ErrString = ''''\<rparr>\<rparr>,
       Encode 1 (bindOk 1),
       Encode 2 (bindOk 2)],
      raced_state) \<and>
   Encode_result example_env (bindOk 1) = None \<and>
   listenerConntrack raced_state 1 = None \<and>
   listenerConntrack raced_state 2 = Some 22 \<and>
   handleConn (sock_env 1) 3 raced_state =
     (Returned,
      [Encode 3 \<lparr>Type = MessageListenerSockResponse,
                 Payload = PListenerSockResponse
                   \<lparr>Sock_Err = True, Sock_ErrString = ''invalid or unexistant SockID''\<rparr>\<rparr>],
      raced_state)"
proof -
  have sent: "Encode_result example_env (bindOk 1) = None"
    by (simp add: example_env_def)
  have absent: "listenerConntrack raced_state 1 = None"
    by (simp add: raced_state_def)
  have other: "listenerConntrack raced_state 2 = Some 22"
    by (simp add: raced_state_def)
  have reply: "handleConn (sock_env 1) 3 raced_state =
     (Returned,
      [Encode 3 \<lparr>Type = MessageListenerSockResponse,
                 Payload = PListenerSockResponse
                   \<lparr>Sock_Err = True, Sock_ErrString = ''invalid or unexistant SockID''\<rparr>\<rparr>],
      raced_state)"
    by (simp add: handleConn_def sock_env_def session_with_simps example_env_simps
        handleListenerSockRequest_def encodeOrFatal_def Let_def absent)
  show ?thesis
    by (intro conjI racing_run sent absent other reply)
qed

section \<open>The info request\<close>

text \<open>
  Claim C8 on two inputs. When the lookup of the user fails and the hostname is known,
  the handler reads the user name through a nil pointer and panics: there is no InfoReply.
  When the hostname is not known and the user is alice, the name of the reply is
  Unknown@UNKNOWN. Both come from testing the error of the hostname where the error of
  the user lookup was meant.
\<close>

theorem info_request_stale_error:
  "handleConn info_nouser_env 8 agent_init = (Panicked nil_dereference, [], agent_init) \<and>
   handleConn info_nohost_env 8 agent_init =
     (Returned,
      [Encode 8 \<lparr>Type = MessageInfoReply,
                 Payload = PInfoReply \<lparr>Name = ''Unknown@UNKNOWN'', Interfaces = []\<rparr>\<rparr>],
      agent_init)"
  by (simp add: handleConn_def info_nouser_env_def info_nohost_env_def info_env_def
      session_with_def example_env_def handleInfoRequest_def encodeOrFatal_def Let_def)

end
